theory Spec2Isabelle
  imports Main "HOL-Library.Word"
begin

unbundle bit_operations_syntax

section \<open>JavaScript values and thrown errors\<close>

text \<open>
  The SDK is TypeScript; at run time its arguments and the parsed JSON bodies are plain
  JavaScript values. Numbers are modelled as integers, objects as association lists
  (first binding of a key wins), strings as lists of code units below 256.
\<close>

datatype jsval =
    JUndefined
  | JNull
  | JBool bool
  | JNum int
  | JStr string
  | JArr "jsval list"
  | JObj "(string \<times> jsval) list"

text \<open>The classes of \<open>errors.ts\<close>; \<open>instanceof SolanaError\<close> holds for each of them.\<close>

datatype error_class =
    SolanaErrorC
  | SolanaNetworkErrorC
  | SolanaRPCErrorC
  | SolanaTransactionErrorC
  | SolanaAccountErrorC
  | SolanaProgramErrorC
  | SolanaValidationErrorC

datatype extra_field = NoExtra | RpcCode jsval | Signature jsval | Account jsval | ProgramId jsval

text \<open>
  A thrown value is either an error of the SDK's hierarchy (class, message, code, details
  and the extra field of the subclass) or a native error of the platform (\<open>TypeError\<close>,
  \<open>SyntaxError\<close>, \<open>RangeError\<close>, an aborted request), given by its name and message.
  The \<open>details\<close> of an SDK error are absent, a caught error, or a JSON payload.
\<close>

datatype thrown =
    NativeError string string
  | SolanaErr error_class string string details extra_field
and details = NoDetails | CausedBy thrown | Payload jsval

fun instanceof_SolanaError :: "thrown \<Rightarrow> bool" where
  "instanceof_SolanaError (NativeError _ _) = False"
| "instanceof_SolanaError (SolanaErr _ _ _ _ _) = True"

fun error_kind :: "thrown \<Rightarrow> error_class option" where
  "error_kind (NativeError _ _) = None"
| "error_kind (SolanaErr c _ _ _ _) = Some c"

fun error_code :: "thrown \<Rightarrow> string option" where
  "error_code (NativeError _ _) = None"
| "error_code (SolanaErr _ _ c _ _) = Some c"

fun error_details :: "thrown \<Rightarrow> details" where
  "error_details (NativeError _ _) = NoDetails"
| "error_details (SolanaErr _ _ _ d _) = d"

definition SolanaError :: "string \<Rightarrow> string \<Rightarrow> details \<Rightarrow> thrown" where
  "SolanaError message code dt = SolanaErr SolanaErrorC message code dt NoExtra"

definition SolanaNetworkError :: "string \<Rightarrow> details \<Rightarrow> thrown" where
  "SolanaNetworkError message dt = SolanaErr SolanaNetworkErrorC message ''NETWORK_ERROR'' dt NoExtra"

definition SolanaRPCError :: "string \<Rightarrow> jsval \<Rightarrow> details \<Rightarrow> thrown" where
  "SolanaRPCError message rpcCode dt =
     SolanaErr SolanaRPCErrorC message ''RPC_ERROR'' dt (RpcCode rpcCode)"

definition SolanaTransactionError :: "string \<Rightarrow> jsval \<Rightarrow> details \<Rightarrow> thrown" where
  "SolanaTransactionError message signature dt =
     SolanaErr SolanaTransactionErrorC message ''TRANSACTION_ERROR'' dt (Signature signature)"

definition SolanaAccountError :: "string \<Rightarrow> jsval \<Rightarrow> details \<Rightarrow> thrown" where
  "SolanaAccountError message account dt =
     SolanaErr SolanaAccountErrorC message ''ACCOUNT_ERROR'' dt (Account account)"

definition SolanaProgramError :: "string \<Rightarrow> jsval \<Rightarrow> details \<Rightarrow> thrown" where
  "SolanaProgramError message programId dt =
     SolanaErr SolanaProgramErrorC message ''PROGRAM_ERROR'' dt (ProgramId programId)"

definition SolanaValidationError :: "string \<Rightarrow> details \<Rightarrow> thrown" where
  "SolanaValidationError message dt =
     SolanaErr SolanaValidationErrorC message ''VALIDATION_ERROR'' dt NoExtra"

section \<open>Strings and big integers of the platform\<close>

definition char_code :: "char \<Rightarrow> nat" where
  "char_code c = of_char c"

definition in_range :: "char \<Rightarrow> char \<Rightarrow> char \<Rightarrow> bool" where
  "in_range lo hi c = (char_code lo \<le> char_code c \<and> char_code c \<le> char_code hi)"

definition is_digit :: "char \<Rightarrow> bool" where
  "is_digit c = in_range CHR ''0'' CHR ''9'' c"

definition digit_value :: "char \<Rightarrow> nat" where
  "digit_value c =
     (if in_range CHR ''0'' CHR ''9'' c then char_code c - 48
      else if in_range CHR ''a'' CHR ''z'' c then char_code c - 87
      else if in_range CHR ''A'' CHR ''Z'' c then char_code c - 55
      else 36)"

definition is_digit_of :: "nat \<Rightarrow> char \<Rightarrow> bool" where
  "is_digit_of base c = (digit_value c < base)"

definition digits_value :: "nat \<Rightarrow> string \<Rightarrow> int" where
  "digits_value base ds = foldl (\<lambda>acc c. acc * int base + int (digit_value c)) 0 ds"

text \<open>\<open>String.prototype.split('.')\<close>: the pieces between the dots, never an empty array.\<close>

fun split_dot :: "string \<Rightarrow> string list" where
  "split_dot [] = [[]]"
| "split_dot (c # cs) =
     (if c = CHR ''.'' then [] # split_dot cs
      else (case split_dot cs of [] \<Rightarrow> [[c]] | p # ps \<Rightarrow> (c # p) # ps))"

definition padEnd :: "string \<Rightarrow> nat \<Rightarrow> char \<Rightarrow> string" where
  "padEnd s n c = s @ replicate (n - length s) c"

definition padStart :: "string \<Rightarrow> nat \<Rightarrow> char \<Rightarrow> string" where
  "padStart s n c = replicate (n - length s) c @ s"

text \<open>White space of the string-to-number grammar, within the code units below 256.\<close>

definition is_whitespace :: "char \<Rightarrow> bool" where
  "is_whitespace c = (char_code c \<in> {9, 10, 11, 12, 13, 32, 160})"

definition trim :: "string \<Rightarrow> string" where
  "trim s = rev (dropWhile is_whitespace (rev (dropWhile is_whitespace s)))"

text \<open>
  \<open>BigInt(string)\<close>: white space is trimmed, the empty string is \<open>0n\<close>, a decimal literal
  may carry a sign, the literals with prefix \<open>0x\<close>, \<open>0o\<close>, \<open>0b\<close> may not, and everything
  else throws a \<open>SyntaxError\<close>.
\<close>

definition all_digits_of :: "nat \<Rightarrow> string \<Rightarrow> bool" where
  "all_digits_of base ds = (ds \<noteq> [] \<and> list_all (is_digit_of base) ds)"

definition BigInt_syntax_error :: thrown where
  "BigInt_syntax_error = NativeError ''SyntaxError'' ''Cannot convert string to a BigInt''"

fun parse_integer_literal :: "string \<Rightarrow> thrown + int" where
  "parse_integer_literal [] = Inr 0"
| "parse_integer_literal (c # cs) =
     (if c = CHR ''0'' \<and> cs \<noteq> [] \<and> hd cs \<in> {CHR ''x'', CHR ''X''} then
        (if all_digits_of 16 (tl cs) then Inr (digits_value 16 (tl cs))
         else Inl BigInt_syntax_error)
      else if c = CHR ''0'' \<and> cs \<noteq> [] \<and> hd cs \<in> {CHR ''o'', CHR ''O''} then
        (if all_digits_of 8 (tl cs) then Inr (digits_value 8 (tl cs))
         else Inl BigInt_syntax_error)
      else if c = CHR ''0'' \<and> cs \<noteq> [] \<and> hd cs \<in> {CHR ''b'', CHR ''B''} then
        (if all_digits_of 2 (tl cs) then Inr (digits_value 2 (tl cs))
         else Inl BigInt_syntax_error)
      else if c = CHR ''-'' then
        (if all_digits_of 10 cs then Inr (- digits_value 10 cs)
         else Inl BigInt_syntax_error)
      else if c = CHR ''+'' then
        (if all_digits_of 10 cs then Inr (digits_value 10 cs)
         else Inl BigInt_syntax_error)
      else
        (if all_digits_of 10 (c # cs) then Inr (digits_value 10 (c # cs))
         else Inl BigInt_syntax_error))"

definition BigInt_of_string :: "string \<Rightarrow> thrown + int" where
  "BigInt_of_string s = parse_integer_literal (trim s)"

text \<open>\<open>BigInt.prototype.toString()\<close>: decimal digits, a minus sign for negative values.\<close>

function digits_toString :: "int \<Rightarrow> string" where
  "digits_toString n =
     (if n < 10 then [char_of (48 + n)]
      else digits_toString (n div 10) @ [char_of (48 + n mod 10)])"
  by pat_completeness auto
termination
  by (relation "measure nat") auto

declare digits_toString.simps [simp del]

definition bigint_toString :: "int \<Rightarrow> string" where
  "bigint_toString v = (if v < 0 then CHR ''-'' # digits_toString (- v) else digits_toString v)"

text \<open>BigInt division truncates towards zero and the remainder takes the dividend's sign.\<close>

definition bigint_div :: "int \<Rightarrow> int \<Rightarrow> int" where
  "bigint_div a b = sgn a * sgn b * (\<bar>a\<bar> div \<bar>b\<bar>)"

definition bigint_rem :: "int \<Rightarrow> int \<Rightarrow> int" where
  "bigint_rem a b = sgn a * (\<bar>a\<bar> mod \<bar>b\<bar>)"

text \<open>
  \<open>10 ** decimals\<close> is a Number, an IEEE 754 binary64 value: the power rounded to 53
  significant bits (to nearest, ties to even), \<open>Infinity\<close> (\<open>None\<close>) from \<open>2^1024\<close> on.
  \<open>BigInt(number)\<close> throws a \<open>RangeError\<close> on \<open>Infinity\<close>.
\<close>

function bit_length :: "int \<Rightarrow> nat" where
  "bit_length n = (if n \<le> 0 then 0 else Suc (bit_length (n div 2)))"
  by pat_completeness auto
termination
  by (relation "measure nat") auto

declare bit_length.simps [simp del]

definition round_binary64 :: "int \<Rightarrow> int option" where
  "round_binary64 n =
     (if bit_length n \<le> 53 then Some n
      else
        (let e = bit_length n - 53;
             q = n div 2 ^ e;
             r = n mod 2 ^ e;
             m = (if 2 ^ (e - 1) < r \<or> (r = 2 ^ (e - 1) \<and> odd q) then q + 1 else q)
         in if 2 ^ 1024 \<le> m * 2 ^ e then None else Some (m * 2 ^ e)))"

text \<open>
  \<open>10^23\<close> lies exactly between two binary64 values, where an engine's \<open>**\<close> may give
  either neighbour; nothing proved below uses that case.
\<close>

definition number_pow10 :: "nat \<Rightarrow> int option" where
  "number_pow10 decimals = round_binary64 (10 ^ decimals)"

definition BigInt_of_number :: "int option \<Rightarrow> thrown + int" where
  "BigInt_of_number x =
     (case x of
        None \<Rightarrow> Inl (NativeError ''RangeError'' ''The number Infinity cannot be converted to a BigInt'')
      | Some n \<Rightarrow> Inr n)"

section \<open>utils.ts: unit conversion\<close>

text \<open>
  \<open>parseUnits(value, decimals)\<close>. The destructuring takes the first two pieces of the
  split, an absent second piece defaulting to the empty string. \<open>decimals\<close> is a
  non-negative integer.
\<close>

definition parseUnits :: "string \<Rightarrow> nat \<Rightarrow> thrown + int" where
  "parseUnits value decimals =
     (let parts = split_dot value;
          integer = hd parts;
          fraction = (case tl parts of [] \<Rightarrow> [] | f # _ \<Rightarrow> f);
          paddedFraction = take decimals (padEnd fraction decimals CHR ''0'')
      in BigInt_of_string (integer @ paddedFraction))"

text \<open>\<open>remainderStr.replace(/0+$/, '')\<close> removes the trailing zeros.\<close>

definition strip_trailing_zeros :: "string \<Rightarrow> string" where
  "strip_trailing_zeros s = rev (dropWhile (\<lambda>c. c = CHR ''0'') (rev s))"

text \<open>\<open>formatUnits(value, decimals)\<close> on a bigint value.\<close>

definition formatUnits :: "int \<Rightarrow> nat \<Rightarrow> thrown + string" where
  "formatUnits bigintValue decimals =
     (case BigInt_of_number (number_pow10 decimals) of
        Inl e \<Rightarrow> Inl e
      | Inr divisor \<Rightarrow>
          (if divisor = 0 then Inl (NativeError ''RangeError'' ''Division by zero'')
           else
             (let quotient = bigint_div bigintValue divisor;
                  remainder = bigint_rem bigintValue divisor
              in if remainder = 0 then Inr (bigint_toString quotient)
                 else
                   (let remainderStr = padStart (bigint_toString remainder) decimals CHR ''0'';
                        trimmedRemainder = strip_trailing_zeros remainderStr
                    in if trimmedRemainder \<noteq> [] then
                         Inr (bigint_toString quotient @ ''.'' @ trimmedRemainder)
                       else Inr (bigint_toString quotient)))))"

text \<open>The same function on a string argument, which is converted with \<open>BigInt\<close> first.\<close>

definition formatUnits_string :: "string \<Rightarrow> nat \<Rightarrow> thrown + string" where
  "formatUnits_string value decimals =
     (case BigInt_of_string value of Inl e \<Rightarrow> Inl e | Inr v \<Rightarrow> formatUnits v decimals)"

text \<open>The composition of the round-trip law: an error of \<open>parseUnits\<close> propagates.\<close>

definition roundtrip :: "string \<Rightarrow> nat \<Rightarrow> thrown + string" where
  "roundtrip s d = (case parseUnits s d of Inl e \<Rightarrow> Inl e | Inr v \<Rightarrow> formatUnits v d)"

text \<open>
  The decimal strings of the round-trip law: an integer part of at least one digit,
  optionally a dot and at most \<open>d\<close> digits, no sign. \<open>trim_fraction\<close> is the
  normalisation the specification names (trailing zeros of the fraction trimmed, the dot
  dropped when nothing remains); \<open>normalize_decimal\<close> also removes redundant leading
  zeros of the integer part.
\<close>

definition integer_part :: "string \<Rightarrow> string" where
  "integer_part s = takeWhile (\<lambda>c. c \<noteq> CHR ''.'') s"

definition fraction_part :: "string \<Rightarrow> string" where
  "fraction_part s = drop 1 (dropWhile (\<lambda>c. c \<noteq> CHR ''.'') s)"

definition unsigned_decimal :: "nat \<Rightarrow> string \<Rightarrow> bool" where
  "unsigned_decimal d s =
     (integer_part s \<noteq> [] \<and> list_all is_digit (integer_part s) \<and>
      list_all is_digit (fraction_part s) \<and> length (fraction_part s) \<le> d)"

definition strip_leading_zeros :: "string \<Rightarrow> string" where
  "strip_leading_zeros i = (case dropWhile (\<lambda>c. c = CHR ''0'') i of [] \<Rightarrow> ''0'' | r # rs \<Rightarrow> r # rs)"

definition trim_fraction :: "string \<Rightarrow> string" where
  "trim_fraction s =
     (let i = integer_part s;
          t = strip_trailing_zeros (fraction_part s)
      in if t = [] then i else i @ ''.'' @ t)"

definition normalize_decimal :: "string \<Rightarrow> string" where
  "normalize_decimal s =
     (let i = strip_leading_zeros (integer_part s);
          t = strip_trailing_zeros (fraction_part s)
      in if t = [] then i else i @ ''.'' @ t)"

section \<open>utils.ts: key validation\<close>

fun truthy :: "jsval \<Rightarrow> bool" where
  "truthy JUndefined = False"
| "truthy JNull = False"
| "truthy (JBool b) = b"
| "truthy (JNum n) = (n \<noteq> 0)"
| "truthy (JStr s) = (s \<noteq> [])"
| "truthy (JArr _) = True"
| "truthy (JObj _) = True"

fun is_string :: "jsval \<Rightarrow> bool" where
  "is_string (JStr _) = True"
| "is_string _ = False"

fun string_of :: "jsval \<Rightarrow> string" where
  "string_of (JStr s) = s"
| "string_of _ = []"

text \<open>The character class \<open>[1-9A-HJ-NP-Za-km-z]\<close> and the test of \<open>/^[1-9A-HJ-NP-Za-km-z]+$/\<close>.\<close>

definition base58_class :: "char \<Rightarrow> bool" where
  "base58_class c =
     (in_range CHR ''1'' CHR ''9'' c \<or> in_range CHR ''A'' CHR ''H'' c \<or>
      in_range CHR ''J'' CHR ''N'' c \<or> in_range CHR ''P'' CHR ''Z'' c \<or>
      in_range CHR ''a'' CHR ''k'' c \<or> in_range CHR ''m'' CHR ''z'' c)"

definition base58Regex_test :: "string \<Rightarrow> bool" where
  "base58Regex_test s = (s \<noteq> [] \<and> list_all base58_class s)"

definition validatePublicKey :: "jsval \<Rightarrow> bool" where
  "validatePublicKey publicKey =
     (if \<not> truthy publicKey \<or> \<not> is_string publicKey then False
      else if length (string_of publicKey) < 32 \<or> length (string_of publicKey) > 44 then False
      else base58Regex_test (string_of publicKey))"

definition formatPublicKey :: "jsval \<Rightarrow> thrown + jsval" where
  "formatPublicKey publicKey =
     (if \<not> validatePublicKey publicKey
      then Inl (SolanaValidationError ''Invalid public key format'' NoDetails)
      else Inr publicKey)"

text \<open>The base58 alphabet as the specification spells it out.\<close>

definition base58_alphabet :: string where
  "base58_alphabet = ''123456789ABCDEFGHJKLMNPQRSTUVWXYZabcdefghijkmnopqrstuvwxyz''"

text \<open>
  \<open>validatePrivateKey\<close> takes a \<open>Uint8Array\<close> or a string. \<open>match(/.{1,2}/g)\<close> cuts the
  string into pieces of two characters (one at the end or before a line terminator, which
  the dot does not match); each piece goes through \<open>parseInt(piece, 16)\<close> and into a
  \<open>Uint8Array\<close>, where \<open>NaN\<close> is stored as 0.
\<close>

datatype key_arg = KeyString string | KeyBytes "8 word list" | KeyOther

definition is_line_terminator :: "char \<Rightarrow> bool" where
  "is_line_terminator c = (char_code c \<in> {10, 13})"

fun match_chunks :: "string \<Rightarrow> string list" where
  "match_chunks [] = []"
| "match_chunks [c] = (if is_line_terminator c then [] else [[c]])"
| "match_chunks (c # c' # cs) =
     (if is_line_terminator c then match_chunks (c' # cs)
      else if is_line_terminator c' then [c] # match_chunks cs
      else [c, c'] # match_chunks cs)"

definition parseInt16 :: "string \<Rightarrow> int option" where
  "parseInt16 s =
     (let t = dropWhile is_whitespace s;
          sign = (if t \<noteq> [] \<and> hd t = CHR ''-'' then - 1 else 1 :: int);
          u = (if t \<noteq> [] \<and> hd t \<in> {CHR ''-'', CHR ''+''} then tl t else t);
          w = (if 2 \<le> length u \<and> hd u = CHR ''0'' \<and> hd (tl u) \<in> {CHR ''x'', CHR ''X''}
               then tl (tl u) else u);
          z = takeWhile (is_digit_of 16) w
      in if z = [] then None else Some (sign * digits_value 16 z))"

definition ToUint8 :: "int option \<Rightarrow> 8 word" where
  "ToUint8 x = (case x of None \<Rightarrow> 0 | Some n \<Rightarrow> word_of_int n)"

definition validatePrivateKey :: "key_arg \<Rightarrow> bool" where
  "validatePrivateKey privateKey =
     (case privateKey of
        KeyString s \<Rightarrow>
          (let bytes = map (\<lambda>byte. ToUint8 (parseInt16 byte)) (match_chunks s)
           in length bytes = 64)
      | KeyBytes b \<Rightarrow> length b = 64
      | KeyOther \<Rightarrow> False)"

text \<open>A string that is the hexadecimal encoding of 64 bytes: 128 hexadecimal digits.\<close>

definition hex_encoding_of_64_bytes :: "string \<Rightarrow> bool" where
  "hex_encoding_of_64_bytes s = (length s = 128 \<and> list_all (is_digit_of 16) s)"

section \<open>utils.ts: retry\<close>

text \<open>
  The operation is an effectful thunk: \<open>fn k\<close> is the outcome of its invocation number
  \<open>k\<close> (counted from 0), \<open>Inl\<close> a rejection. The run records each invocation and each
  \<open>setTimeout\<close> delay. \<open>attempts\<close> is the counter of the closure.
\<close>

datatype event = Invoke | Wait int

function attempt ::
  "(nat \<Rightarrow> 'e + 'a) \<Rightarrow> int \<Rightarrow> int \<Rightarrow> int \<Rightarrow> nat \<Rightarrow> ('e + 'a) \<times> event list" where
  "attempt fn maxRetries delay attempts calls =
     (if isl (fn calls) then
        (if attempts + 1 \<ge> maxRetries then (fn calls, [Invoke])
         else
           (let r = attempt fn maxRetries delay (attempts + 1) (Suc calls)
            in (fst r, Invoke # Wait (delay * (attempts + 1)) # snd r)))
      else (fn calls, [Invoke]))"
  by pat_completeness auto
termination
  by (relation "measure (\<lambda>(fn, maxRetries, delay, attempts, calls). nat (maxRetries - attempts))") auto

declare attempt.simps [simp del]

definition retry :: "(nat \<Rightarrow> 'e + 'a) \<Rightarrow> int \<Rightarrow> int \<Rightarrow> ('e + 'a) \<times> event list" where
  "retry fn maxRetries delay = attempt fn maxRetries delay 0 0"

definition invocations :: "event list \<Rightarrow> nat" where
  "invocations tr = length (filter (\<lambda>ev. ev = Invoke) tr)"

text \<open>The trace of \<open>n\<close> failed invocations, each followed by its delay, from failure number \<open>k\<close>.\<close>

fun backoff_trace :: "int \<Rightarrow> int \<Rightarrow> nat \<Rightarrow> event list" where
  "backoff_trace delay k 0 = []"
| "backoff_trace delay k (Suc n) = Invoke # Wait (delay * k) # backoff_trace delay (k + 1) n"

section \<open>utils.ts: webhook signature\<close>

text \<open>\<open>TextEncoder.encode\<close>: UTF-8, one byte below 128 and two bytes from 128 to 255.\<close>

definition TextEncoder_encode :: "string \<Rightarrow> 8 word list" where
  "TextEncoder_encode s =
     concat (map (\<lambda>c. if char_code c < 128 then [of_nat (char_code c)]
                      else [of_nat (192 + char_code c div 64), of_nat (128 + char_code c mod 64)]) s)"

definition base64_chars :: string where
  "base64_chars = ''ABCDEFGHIJKLMNOPQRSTUVWXYZabcdefghijklmnopqrstuvwxyz0123456789+/''"

definition b64 :: "nat \<Rightarrow> char" where
  "b64 i = base64_chars ! (i mod 64)"

text \<open>\<open>btoa\<close> on a string of code units below 256, given as bytes.\<close>

fun btoa :: "8 word list \<Rightarrow> string" where
  "btoa [] = []"
| "btoa [a] = [b64 (unat a div 4), b64 (unat a mod 4 * 16), CHR ''='', CHR ''='']"
| "btoa [a, b] =
     [b64 (unat a div 4), b64 (unat a mod 4 * 16 + unat b div 16), b64 (unat b mod 16 * 4), CHR ''='']"
| "btoa (a # b # c # rest) =
     [b64 (unat a div 4), b64 (unat a mod 4 * 16 + unat b div 16),
      b64 (unat b mod 16 * 4 + unat c div 64), b64 (unat c mod 64)] @ btoa rest"

text \<open>
  \<open>key[i % key.length]\<close>: with an empty key the index is \<open>NaN\<close>, the element
  \<open>undefined\<close>, and \<open>byte ^ undefined\<close> is \<open>byte\<close>.
\<close>

definition key_at :: "8 word list \<Rightarrow> nat \<Rightarrow> 8 word" where
  "key_at key i = (if key = [] then 0 else key ! (i mod length key))"

definition createWebhookSignature :: "string \<Rightarrow> string \<Rightarrow> string" where
  "createWebhookSignature payload secret =
     (let key = TextEncoder_encode secret;
          data = TextEncoder_encode payload
      in btoa (map (\<lambda>(i, byte). byte XOR key_at key i) (enumerate 0 data)))"

definition verifyWebhookSignature :: "string \<Rightarrow> string \<Rightarrow> string \<Rightarrow> bool" where
  "verifyWebhookSignature payload signature secret =
     (let expectedSignature = createWebhookSignature payload secret
      in signature = expectedSignature)"

text \<open>
  In the specification's words: the payload bytes XORed byte-wise against the repeating
  secret key, here the key written out as often as needed and cut to the payload's length.
\<close>

definition repeating_key :: "8 word list \<Rightarrow> nat \<Rightarrow> 8 word list" where
  "repeating_key key n = take n (concat (replicate n key))"

definition xor_with_repeating_key :: "8 word list \<Rightarrow> 8 word list \<Rightarrow> 8 word list" where
  "xor_with_repeating_key data key = map2 (XOR) data (repeating_key key (length data))"

section \<open>Requests, responses and effects\<close>

text \<open>
  \<open>SolanaConfig\<close> as the caller gives it, and as the client holds it once the
  constructor has spread the given fields over its defaults.
\<close>

record SolanaConfigInput =
  in_apiKey :: string
  in_baseUrl :: "string option"
  in_rpcUrl :: "string option"
  in_timeout :: "int option"
  in_retries :: "int option"

record SolanaConfig =
  apiKey :: string
  baseUrl :: string
  rpcUrl :: string
  timeout :: int
  retries :: int

text \<open>
  The \<open>RequestInit\<close> given to \<open>fetch\<close>, with its URL. The body is the value handed to
  \<open>JSON.stringify\<close>; the signal is the timeout it was built from.
\<close>

record request =
  req_url :: string
  req_method :: string
  req_headers :: "(string \<times> string) list"
  req_body :: "jsval option"
  req_timeout :: int

text \<open>
  A response: \<open>ok\<close>, \<open>status\<close>, \<open>statusText\<close>, and what \<open>json()\<close> gives (\<open>None\<close> when the
  body is not JSON and \<open>json()\<close> rejects). \<open>fetch\<close> itself rejects on a transport failure
  or when the timeout aborts it. The remote side is any function of the requests sent
  so far and the current one.
\<close>

record response =
  ok :: bool
  status :: int
  statusText :: string
  json_body :: "jsval option"

datatype fetch_outcome = FetchRejected string string | FetchResolved response

type_synonym server = "request list \<Rightarrow> request \<Rightarrow> fetch_outcome"

text \<open>
  An asynchronous operation of the SDK: from the requests sent so far to a return value or
  a thrown error, and the requests sent afterwards.
\<close>

type_synonym 'a io = "request list \<Rightarrow> (thrown + 'a) \<times> request list"

definition io_return :: "'a \<Rightarrow> 'a io" where
  "io_return v = (\<lambda>sent. (Inr v, sent))"

definition io_throw :: "thrown \<Rightarrow> 'a io" where
  "io_throw e = (\<lambda>sent. (Inl e, sent))"

definition io_lift :: "thrown + 'a \<Rightarrow> 'a io" where
  "io_lift r = (\<lambda>sent. (r, sent))"

definition io_bind :: "'a io \<Rightarrow> ('a \<Rightarrow> 'b io) \<Rightarrow> 'b io" where
  "io_bind m f = (\<lambda>sent. case m sent of (Inl e, sent') \<Rightarrow> (Inl e, sent') | (Inr v, sent') \<Rightarrow> f v sent')"

definition io_try :: "'a io \<Rightarrow> (thrown \<Rightarrow> 'a io) \<Rightarrow> 'a io" where
  "io_try m handler =
     (\<lambda>sent. case m sent of (Inl e, sent') \<Rightarrow> handler e sent' | (Inr v, sent') \<Rightarrow> (Inr v, sent'))"

definition fetch :: "server \<Rightarrow> request \<Rightarrow> response io" where
  "fetch srv options =
     (\<lambda>sent. (case srv sent options of
                 FetchRejected name message \<Rightarrow> Inl (NativeError name message)
               | FetchResolved r \<Rightarrow> Inr r,
              sent @ [options]))"

definition response_json :: "response \<Rightarrow> jsval io" where
  "response_json r =
     (case json_body r of
        None \<Rightarrow> io_throw (NativeError ''SyntaxError'' ''Unexpected token in JSON'')
      | Some v \<Rightarrow> io_return v)"

text \<open>
  Property access \<open>v.k\<close>: a \<open>TypeError\<close> on \<open>undefined\<close> and \<open>null\<close>, the bound value on
  an object, \<open>undefined\<close> otherwise (no property name read by the SDK is a built-in
  property of a string, a number or an array).
\<close>

definition property_TypeError :: "string \<Rightarrow> thrown" where
  "property_TypeError k = NativeError ''TypeError'' (''Cannot read properties of undefined (reading '' @ k @ '')'')"

fun get_prop :: "jsval \<Rightarrow> string \<Rightarrow> thrown + jsval" where
  "get_prop JUndefined k = Inl (property_TypeError k)"
| "get_prop JNull k = Inl (property_TypeError k)"
| "get_prop (JObj kvs) k = Inr (case map_of kvs k of None \<Rightarrow> JUndefined | Some v \<Rightarrow> v)"
| "get_prop _ k = Inr JUndefined"

fun get_path :: "jsval \<Rightarrow> string list \<Rightarrow> thrown + jsval" where
  "get_path v [] = Inr v"
| "get_path v (k # ks) = (case get_prop v k of Inl e \<Rightarrow> Inl e | Inr w \<Rightarrow> get_path w ks)"

text \<open>String conversion of a value in a template literal, and for an error's message.\<close>

fun js_join :: "string list \<Rightarrow> string" where
  "js_join [] = []"
| "js_join [s] = s"
| "js_join (s # t # ss) = s @ '','' @ js_join (t # ss)"

fun js_toString :: "jsval \<Rightarrow> string" where
  "js_toString JUndefined = ''undefined''"
| "js_toString JNull = ''null''"
| "js_toString (JBool b) = (if b then ''true'' else ''false'')"
| "js_toString (JNum n) = bigint_toString n"
| "js_toString (JStr s) = s"
| "js_toString (JArr xs) =
     js_join (map (\<lambda>x. if x = JUndefined \<or> x = JNull then [] else js_toString x) xs)"
| "js_toString (JObj _) = ''[object Object]''"

definition error_message :: "jsval \<Rightarrow> string" where
  "error_message v = (if v = JUndefined then [] else js_toString v)"

text \<open>Object spread \<open>{...v}\<close>: the own enumerable properties of \<open>v\<close>.\<close>

fun spread :: "jsval \<Rightarrow> (string \<times> jsval) list" where
  "spread (JObj kvs) = kvs"
| "spread (JArr xs) = map (\<lambda>(i, x). (digits_toString (int i), x)) (enumerate 0 xs)"
| "spread (JStr s) = map (\<lambda>(i, c). (digits_toString (int i), JStr [c])) (enumerate 0 s)"
| "spread _ = []"

text \<open>An object literal: a later property of the same name replaces the earlier value.\<close>

fun obj_put :: "(string \<times> jsval) list \<Rightarrow> string \<times> jsval \<Rightarrow> (string \<times> jsval) list" where
  "obj_put [] kv = [kv]"
| "obj_put ((k, v) # kvs) kv = (if k = fst kv then (k, snd kv) # kvs else (k, v) # obj_put kvs kv)"

definition object_literal :: "(string \<times> jsval) list \<Rightarrow> jsval" where
  "object_literal kvs = JObj (foldl obj_put [] kvs)"

section \<open>The managers' and the client's request helpers\<close>

text \<open>
  \<open>makeRequest\<close>, the same private method in \<open>SolanaLicenseManager\<close>, \<open>SolanaNFTManager\<close>
  and \<open>SolanaDeFiManager\<close>.
\<close>

definition makeRequest :: "SolanaConfig \<Rightarrow> server \<Rightarrow> string \<Rightarrow> string \<Rightarrow> jsval \<Rightarrow> jsval io" where
  "makeRequest config srv method endpoint data =
     (let url = baseUrl config @ endpoint;
          options = \<lparr>req_url = url, req_method = method,
                     req_headers = [(''Content-Type'', ''application/json''),
                                    (''Authorization'', ''Bearer '' @ apiKey config),
                                    (''X-API-Version'', ''1.0''),
                                    (''X-Platform'', ''solana'')],
                     req_body = (if truthy data then Some data else None),
                     req_timeout = timeout config\<rparr>
      in io_try
           (io_bind (fetch srv options) (\<lambda>response.
              if \<not> ok response then
                io_throw (SolanaNetworkError
                  (''HTTP '' @ bigint_toString (status response) @ '': '' @ statusText response) NoDetails)
              else response_json response))
           (\<lambda>error.
              if instanceof_SolanaError error then io_throw error
              else io_throw (SolanaNetworkError ''API request failed'' (CausedBy error))))"

text \<open>\<open>LicenseChainSolana.makeRPCRequest\<close>.\<close>

definition makeRPCRequest :: "SolanaConfig \<Rightarrow> server \<Rightarrow> string \<Rightarrow> jsval list \<Rightarrow> jsval io" where
  "makeRPCRequest config srv method params =
     (let url = rpcUrl config;
          options = \<lparr>req_url = url, req_method = ''POST'',
                     req_headers = [(''Content-Type'', ''application/json''),
                                    (''Authorization'', ''Bearer '' @ apiKey config),
                                    (''X-API-Version'', ''1.0'')],
                     req_body = Some (JObj [(''jsonrpc'', JStr ''2.0''), (''id'', JNum 1),
                                            (''method'', JStr method), (''params'', JArr params)]),
                     req_timeout = timeout config\<rparr>
      in io_try
           (io_bind (fetch srv options) (\<lambda>response.
              if \<not> ok response then
                io_throw (SolanaNetworkError
                  (''HTTP '' @ bigint_toString (status response) @ '': '' @ statusText response) NoDetails)
              else
                io_bind (response_json response) (\<lambda>data.
                io_bind (io_lift (get_prop data ''error'')) (\<lambda>err.
                  if truthy err then
                    io_bind (io_lift (get_prop err ''message'')) (\<lambda>message.
                    io_bind (io_lift (get_prop err ''code'')) (\<lambda>code.
                      io_throw (SolanaRPCError (error_message message) code (Payload err))))
                  else io_return data))))
           (\<lambda>error.
              if instanceof_SolanaError error then io_throw error
              else io_throw (SolanaNetworkError ''RPC request failed'' (CausedBy error))))"

text \<open>
  An object literal whose property values are read from a response: the properties are
  evaluated in order and the first failing read throws. \<open>Array.prototype.map\<close> on a value
  that is not an array is a \<open>TypeError\<close>.
\<close>

fun eval_fields :: "(string \<times> (thrown + jsval)) list \<Rightarrow> thrown + (string \<times> jsval) list" where
  "eval_fields [] = Inr []"
| "eval_fields ((k, r) # rest) =
     (case r of
        Inl e \<Rightarrow> Inl e
      | Inr v \<Rightarrow> (case eval_fields rest of Inl e \<Rightarrow> Inl e | Inr kvs \<Rightarrow> Inr ((k, v) # kvs)))"

definition build_object :: "(string \<times> (thrown + jsval)) list \<Rightarrow> thrown + jsval" where
  "build_object props = (case eval_fields props of Inl e \<Rightarrow> Inl e | Inr kvs \<Rightarrow> Inr (JObj kvs))"

fun map_throwing :: "('a \<Rightarrow> thrown + 'b) \<Rightarrow> 'a list \<Rightarrow> thrown + 'b list" where
  "map_throwing f [] = Inr []"
| "map_throwing f (x # xs) =
     (case f x of
        Inl e \<Rightarrow> Inl e
      | Inr y \<Rightarrow> (case map_throwing f xs of Inl e \<Rightarrow> Inl e | Inr ys \<Rightarrow> Inr (y # ys)))"

definition array_map :: "(jsval \<Rightarrow> thrown + jsval) \<Rightarrow> jsval \<Rightarrow> thrown + jsval" where
  "array_map f v =
     (case v of
        JArr xs \<Rightarrow> (case map_throwing f xs of Inl e \<Rightarrow> Inl e | Inr ys \<Rightarrow> Inr (JArr ys))
      | JUndefined \<Rightarrow> Inl (property_TypeError ''map'')
      | JNull \<Rightarrow> Inl (property_TypeError ''map'')
      | _ \<Rightarrow> Inl (NativeError ''TypeError'' ''response.value.map is not a function''))"

section \<open>SolanaLicenseManager\<close>

text \<open>A manager holds nothing but its configuration, so it is modelled by it.\<close>

definition SolanaLicenseManager_createLicense ::
  "SolanaConfig \<Rightarrow> server \<Rightarrow> jsval \<Rightarrow> jsval \<Rightarrow> jsval \<Rightarrow> jsval io" where
  "SolanaLicenseManager_createLicense config srv userId productId metadata =
     io_try
       (if \<not> truthy userId \<or> \<not> truthy productId then
          io_throw (SolanaValidationError ''User ID and Product ID are required'' NoDetails)
        else
          io_bind (makeRequest config srv ''POST'' ''/licenses''
                     (object_literal
                        [(''userId'', userId), (''productId'', productId),
                         (''metadata'', object_literal
                            (spread metadata @
                             [(''platform'', JStr ''solana''), (''createdVia'', JStr ''sdk'')]))]))
            (\<lambda>response. io_lift (get_prop response ''data'')))
       (\<lambda>error.
          if instanceof_SolanaError error then io_throw error
          else io_throw (SolanaError ''Failed to create license'' ''LICENSE_CREATE_ERROR'' (CausedBy error)))"

definition SolanaLicenseManager_validateLicense :: "SolanaConfig \<Rightarrow> server \<Rightarrow> jsval \<Rightarrow> jsval io" where
  "SolanaLicenseManager_validateLicense config srv licenseKey =
     io_try
       (if \<not> truthy licenseKey then
          io_throw (SolanaValidationError ''License key is required'' NoDetails)
        else
          io_bind (makeRequest config srv ''POST'' ''/licenses/validate''
                     (object_literal [(''licenseKey'', licenseKey), (''platform'', JStr ''solana'')]))
            (\<lambda>response. io_lift (get_path response [''data'', ''valid''])))
       (\<lambda>error.
          if instanceof_SolanaError error then io_throw error
          else io_throw (SolanaError ''Failed to validate license'' ''LICENSE_VALIDATE_ERROR'' (CausedBy error)))"

definition SolanaLicenseManager_getLicense :: "SolanaConfig \<Rightarrow> server \<Rightarrow> jsval \<Rightarrow> jsval io" where
  "SolanaLicenseManager_getLicense config srv licenseId =
     io_try
       (if \<not> truthy licenseId then
          io_throw (SolanaValidationError ''License ID is required'' NoDetails)
        else
          io_bind (makeRequest config srv ''GET'' (''/licenses/'' @ js_toString licenseId) JUndefined)
            (\<lambda>response. io_lift (get_prop response ''data'')))
       (\<lambda>error.
          if instanceof_SolanaError error then io_throw error
          else io_throw (SolanaError ''Failed to get license'' ''LICENSE_GET_ERROR'' (CausedBy error)))"

definition SolanaLicenseManager_updateLicense ::
  "SolanaConfig \<Rightarrow> server \<Rightarrow> jsval \<Rightarrow> jsval \<Rightarrow> jsval io" where
  "SolanaLicenseManager_updateLicense config srv licenseId updates =
     io_try
       (if \<not> truthy licenseId then
          io_throw (SolanaValidationError ''License ID is required'' NoDetails)
        else
          io_bind (makeRequest config srv ''PUT'' (''/licenses/'' @ js_toString licenseId)
                     (object_literal (spread updates @ [(''platform'', JStr ''solana'')])))
            (\<lambda>response. io_lift (get_prop response ''data'')))
       (\<lambda>error.
          if instanceof_SolanaError error then io_throw error
          else io_throw (SolanaError ''Failed to update license'' ''LICENSE_UPDATE_ERROR'' (CausedBy error)))"

definition SolanaLicenseManager_revokeLicense :: "SolanaConfig \<Rightarrow> server \<Rightarrow> jsval \<Rightarrow> jsval io" where
  "SolanaLicenseManager_revokeLicense config srv licenseId =
     io_try
       (if \<not> truthy licenseId then
          io_throw (SolanaValidationError ''License ID is required'' NoDetails)
        else
          io_bind (makeRequest config srv ''DELETE'' (''/licenses/'' @ js_toString licenseId) JUndefined)
            (\<lambda>response. io_lift (get_path response [''data'', ''success''])))
       (\<lambda>error.
          if instanceof_SolanaError error then io_throw error
          else io_throw (SolanaError ''Failed to revoke license'' ''LICENSE_REVOKE_ERROR'' (CausedBy error)))"

section \<open>SolanaNFTManager\<close>

definition SolanaNFTManager_createNFT :: "SolanaConfig \<Rightarrow> server \<Rightarrow> jsval \<Rightarrow> jsval \<Rightarrow> jsval io" where
  "SolanaNFTManager_createNFT config srv metadata owner =
     io_try
       (if \<not> truthy metadata \<or> \<not> truthy owner then
          io_throw (SolanaValidationError ''Metadata and owner are required'' NoDetails)
        else if \<not> validatePublicKey owner then
          io_throw (SolanaValidationError ''Invalid owner public key'' NoDetails)
        else
          io_bind (makeRequest config srv ''POST'' ''/nfts''
                     (object_literal
                        [(''metadata'', metadata), (''owner'', owner), (''platform'', JStr ''solana'')]))
            (\<lambda>response. io_lift (get_prop response ''data'')))
       (\<lambda>error.
          if instanceof_SolanaError error then io_throw error
          else io_throw (SolanaError ''Failed to create NFT'' ''NFT_CREATE_ERROR'' (CausedBy error)))"

definition SolanaNFTManager_getNFT :: "SolanaConfig \<Rightarrow> server \<Rightarrow> jsval \<Rightarrow> jsval io" where
  "SolanaNFTManager_getNFT config srv mint =
     io_try
       (if \<not> truthy mint then
          io_throw (SolanaValidationError ''Mint address is required'' NoDetails)
        else if \<not> validatePublicKey mint then
          io_throw (SolanaValidationError ''Invalid mint address'' NoDetails)
        else
          io_bind (makeRequest config srv ''GET'' (''/nfts/'' @ js_toString mint) JUndefined)
            (\<lambda>response. io_lift (get_prop response ''data'')))
       (\<lambda>error.
          if instanceof_SolanaError error then io_throw error
          else io_throw (SolanaError ''Failed to get NFT'' ''NFT_GET_ERROR'' (CausedBy error)))"

definition SolanaNFTManager_transferNFT ::
  "SolanaConfig \<Rightarrow> server \<Rightarrow> jsval \<Rightarrow> jsval \<Rightarrow> jsval \<Rightarrow> jsval io" where
  "SolanaNFTManager_transferNFT config srv mint from to =
     io_try
       (if \<not> truthy mint \<or> \<not> truthy from \<or> \<not> truthy to then
          io_throw (SolanaValidationError ''Mint, from, and to addresses are required'' NoDetails)
        else if \<not> validatePublicKey mint \<or> \<not> validatePublicKey from \<or> \<not> validatePublicKey to then
          io_throw (SolanaValidationError ''Invalid address format'' NoDetails)
        else
          io_bind (makeRequest config srv ''POST'' (''/nfts/'' @ js_toString mint @ ''/transfer'')
                     (object_literal [(''from'', from), (''to'', to), (''platform'', JStr ''solana'')]))
            (\<lambda>response. io_lift (get_path response [''data'', ''transactionSignature''])))
       (\<lambda>error.
          if instanceof_SolanaError error then io_throw error
          else io_throw (SolanaError ''Failed to transfer NFT'' ''NFT_TRANSFER_ERROR'' (CausedBy error)))"

section \<open>SolanaDeFiManager\<close>

definition SolanaDeFiManager_getPositions :: "SolanaConfig \<Rightarrow> server \<Rightarrow> jsval \<Rightarrow> jsval io" where
  "SolanaDeFiManager_getPositions config srv owner =
     io_try
       (if \<not> truthy owner then
          io_throw (SolanaValidationError ''Owner address is required'' NoDetails)
        else if \<not> validatePublicKey owner then
          io_throw (SolanaValidationError ''Invalid owner address'' NoDetails)
        else
          io_bind (makeRequest config srv ''GET'' (''/defi/positions/'' @ js_toString owner) JUndefined)
            (\<lambda>response. io_lift (get_prop response ''data'')))
       (\<lambda>error.
          if instanceof_SolanaError error then io_throw error
          else io_throw (SolanaError ''Failed to get DeFi positions'' ''DEFI_POSITIONS_ERROR'' (CausedBy error)))"

definition SolanaDeFiManager_addLiquidity ::
  "SolanaConfig \<Rightarrow> server \<Rightarrow> jsval \<Rightarrow> jsval \<Rightarrow> jsval \<Rightarrow> jsval \<Rightarrow> jsval io" where
  "SolanaDeFiManager_addLiquidity config srv poolAddress amountA amountB owner =
     io_try
       (if \<not> truthy poolAddress \<or> \<not> truthy amountA \<or> \<not> truthy amountB \<or> \<not> truthy owner then
          io_throw (SolanaValidationError ''Pool address, amounts, and owner are required'' NoDetails)
        else if \<not> validatePublicKey poolAddress \<or> \<not> validatePublicKey owner then
          io_throw (SolanaValidationError ''Invalid address format'' NoDetails)
        else
          io_bind (makeRequest config srv ''POST''
                     (''/defi/liquidity-pools/'' @ js_toString poolAddress @ ''/add'')
                     (object_literal
                        [(''amountA'', amountA), (''amountB'', amountB), (''owner'', owner),
                         (''platform'', JStr ''solana'')]))
            (\<lambda>response. io_lift (get_path response [''data'', ''transactionSignature''])))
       (\<lambda>error.
          if instanceof_SolanaError error then io_throw error
          else io_throw (SolanaError ''Failed to add liquidity'' ''ADD_LIQUIDITY_ERROR'' (CausedBy error)))"

definition SolanaDeFiManager_removeLiquidity ::
  "SolanaConfig \<Rightarrow> server \<Rightarrow> jsval \<Rightarrow> jsval \<Rightarrow> jsval \<Rightarrow> jsval io" where
  "SolanaDeFiManager_removeLiquidity config srv poolAddress lpTokens owner =
     io_try
       (if \<not> truthy poolAddress \<or> \<not> truthy lpTokens \<or> \<not> truthy owner then
          io_throw (SolanaValidationError ''Pool address, LP tokens, and owner are required'' NoDetails)
        else if \<not> validatePublicKey poolAddress \<or> \<not> validatePublicKey owner then
          io_throw (SolanaValidationError ''Invalid address format'' NoDetails)
        else
          io_bind (makeRequest config srv ''POST''
                     (''/defi/liquidity-pools/'' @ js_toString poolAddress @ ''/remove'')
                     (object_literal
                        [(''lpTokens'', lpTokens), (''owner'', owner), (''platform'', JStr ''solana'')]))
            (\<lambda>response. io_lift (get_path response [''data'', ''transactionSignature''])))
       (\<lambda>error.
          if instanceof_SolanaError error then io_throw error
          else io_throw (SolanaError ''Failed to remove liquidity'' ''REMOVE_LIQUIDITY_ERROR'' (CausedBy error)))"

section \<open>LicenseChainSolana, the client\<close>

record LicenseChainSolana =
  client_config :: SolanaConfig
  licenseManager :: SolanaConfig
  nftManager :: SolanaConfig
  defiManager :: SolanaConfig

text \<open>The constructor: defaults, overridden by the fields given; one configuration for all.\<close>

definition LicenseChainSolana_new :: "SolanaConfigInput \<Rightarrow> LicenseChainSolana" where
  "LicenseChainSolana_new c =
     (let merged = \<lparr>apiKey = in_apiKey c,
                    baseUrl = (case in_baseUrl c of None \<Rightarrow> ''https://api.licensechain.com'' | Some u \<Rightarrow> u),
                    rpcUrl = (case in_rpcUrl c of None \<Rightarrow> ''https://api.mainnet-beta.solana.com'' | Some u \<Rightarrow> u),
                    timeout = (case in_timeout c of None \<Rightarrow> 30000 | Some t \<Rightarrow> t),
                    retries = (case in_retries c of None \<Rightarrow> 3 | Some r \<Rightarrow> r)\<rparr>
      in \<lparr>client_config = merged, licenseManager = merged, nftManager = merged,
          defiManager = merged\<rparr>)"

subsection \<open>Direct RPC operations that take an address\<close>

definition LicenseChainSolana_getAccount :: "LicenseChainSolana \<Rightarrow> server \<Rightarrow> jsval \<Rightarrow> jsval io" where
  "LicenseChainSolana_getAccount client srv publicKey =
     io_try
       (io_bind (io_lift (formatPublicKey publicKey)) (\<lambda>validatedKey.
        io_bind (makeRPCRequest (client_config client) srv ''getAccountInfo'' [validatedKey]) (\<lambda>response.
        io_bind (io_lift (get_prop response ''value'')) (\<lambda>value.
          if \<not> truthy value then
            io_throw (SolanaAccountError ''Account not found'' validatedKey NoDetails)
          else
            io_lift (build_object
              [(''publicKey'', Inr validatedKey),
               (''balance'', get_prop value ''lamports''),
               (''isExecutable'', get_prop value ''executable''),
               (''owner'', get_prop value ''owner''),
               (''lamports'', get_prop value ''lamports'')])))))
       (\<lambda>error.
          if instanceof_SolanaError error then io_throw error
          else io_throw (SolanaAccountError ''Failed to get account'' publicKey (CausedBy error)))"

definition LicenseChainSolana_getBalance :: "LicenseChainSolana \<Rightarrow> server \<Rightarrow> jsval \<Rightarrow> jsval io" where
  "LicenseChainSolana_getBalance client srv publicKey =
     io_try
       (io_bind (io_lift (formatPublicKey publicKey)) (\<lambda>validatedKey.
        io_bind (makeRPCRequest (client_config client) srv ''getBalance'' [validatedKey]) (\<lambda>response.
          io_lift (get_prop response ''value''))))
       (\<lambda>error. io_throw (SolanaAccountError ''Failed to get balance'' publicKey (CausedBy error)))"

definition token_account_of :: "jsval \<Rightarrow> thrown + jsval" where
  "token_account_of account =
     build_object
       [(''address'', get_prop account ''pubkey''),
        (''mint'', get_path account [''account'', ''data'', ''parsed'', ''info'', ''mint'']),
        (''owner'', get_path account [''account'', ''data'', ''parsed'', ''info'', ''owner'']),
        (''amount'', get_path account [''account'', ''data'', ''parsed'', ''info'', ''tokenAmount'', ''amount'']),
        (''decimals'', get_path account [''account'', ''data'', ''parsed'', ''info'', ''tokenAmount'', ''decimals'']),
        (''state'', get_path account [''account'', ''data'', ''parsed'', ''info'', ''state''])]"

definition LicenseChainSolana_getTokenAccounts ::
  "LicenseChainSolana \<Rightarrow> server \<Rightarrow> jsval \<Rightarrow> jsval \<Rightarrow> jsval io" where
  "LicenseChainSolana_getTokenAccounts client srv owner mint =
     io_try
       (io_bind (io_lift (formatPublicKey owner)) (\<lambda>validatedOwner.
        io_bind (if truthy mint
                 then io_bind (io_lift (formatPublicKey mint)) (\<lambda>m. io_return (JArr [JObj [(''mint'', m)]]))
                 else io_return JUndefined) (\<lambda>filters.
        io_bind (makeRPCRequest (client_config client) srv ''getTokenAccountsByOwner''
                   [validatedOwner,
                    JObj [(''programId'', JStr ''TokenkegQfeZyiNwAJbNbGKPFXCWuBvf9Ss623VQ5DA'')],
                    filters]) (\<lambda>response.
        io_bind (io_lift (get_prop response ''value'')) (\<lambda>value.
          io_lift (array_map token_account_of value))))))
       (\<lambda>error. io_throw (SolanaAccountError ''Failed to get token accounts'' owner (CausedBy error)))"

definition LicenseChainSolana_getProgram :: "LicenseChainSolana \<Rightarrow> server \<Rightarrow> jsval \<Rightarrow> jsval io" where
  "LicenseChainSolana_getProgram client srv programId =
     io_try
       (io_bind (io_lift (formatPublicKey programId)) (\<lambda>validatedId.
        io_bind (makeRPCRequest (client_config client) srv ''getAccountInfo'' [validatedId]) (\<lambda>response.
        io_bind (io_lift (get_prop response ''value'')) (\<lambda>value.
          if \<not> truthy value then
            io_throw (SolanaAccountError ''Program not found'' validatedId NoDetails)
          else
            io_lift (build_object
              [(''programId'', Inr validatedId),
               (''data'', get_prop value ''data''),
               (''owner'', get_prop value ''owner''),
               (''executable'', get_prop value ''executable''),
               (''rentEpoch'', get_prop value ''rentEpoch'')])))))
       (\<lambda>error. io_throw (SolanaAccountError ''Failed to get program'' programId (CausedBy error)))"

definition stake_account_of :: "jsval \<Rightarrow> thrown + jsval" where
  "stake_account_of account =
     build_object
       [(''address'', get_prop account ''pubkey''),
        (''stake'', get_path account [''account'', ''lamports'']),
        (''activationEpoch'', get_path account
           [''account'', ''data'', ''parsed'', ''info'', ''stake'', ''delegation'', ''activationEpoch'']),
        (''deactivationEpoch'', get_path account
           [''account'', ''data'', ''parsed'', ''info'', ''stake'', ''delegation'', ''deactivationEpoch'']),
        (''voter'', get_path account
           [''account'', ''data'', ''parsed'', ''info'', ''stake'', ''delegation'', ''voter'']),
        (''withdrawer'', get_path account [''account'', ''data'', ''parsed'', ''info'', ''withdrawer'']),
        (''staker'', get_path account
           [''account'', ''data'', ''parsed'', ''info'', ''stake'', ''delegation'', ''stake'']),
        (''rentExemptReserve'', get_path account
           [''account'', ''data'', ''parsed'', ''info'', ''rentExemptReserve''])]"

definition LicenseChainSolana_getStakeAccounts ::
  "LicenseChainSolana \<Rightarrow> server \<Rightarrow> jsval \<Rightarrow> jsval io" where
  "LicenseChainSolana_getStakeAccounts client srv owner =
     io_try
       (io_bind (io_lift (formatPublicKey owner)) (\<lambda>validatedOwner.
        io_bind (makeRPCRequest (client_config client) srv ''getProgramAccounts''
                   [JStr ''Stake11111111111111111111111111111111111112'',
                    JObj [(''filters'',
                      JArr [JObj [(''memcmp'',
                        JObj [(''offset'', JNum 124), (''bytes'', validatedOwner)])]])]]) (\<lambda>response.
        io_bind (io_lift (get_prop response ''value'')) (\<lambda>value.
          io_lift (array_map stake_account_of value)))))
       (\<lambda>error. io_throw (SolanaError ''Failed to get stake accounts'' ''STAKE_ERROR'' (CausedBy error)))"

subsection \<open>A direct RPC operation without an address\<close>

text \<open>\<open>a || b\<close> on the result of a property read.\<close>

definition or_default :: "thrown + jsval \<Rightarrow> jsval \<Rightarrow> thrown + jsval" where
  "or_default r b = (case r of Inl e \<Rightarrow> Inl e | Inr a \<Rightarrow> Inr (if truthy a then a else b))"

definition LicenseChainSolana_getBlock :: "LicenseChainSolana \<Rightarrow> server \<Rightarrow> jsval \<Rightarrow> jsval io" where
  "LicenseChainSolana_getBlock client srv slot =
     io_try
       (io_bind (makeRPCRequest (client_config client) srv ''getBlock'' [slot]) (\<lambda>response.
        io_bind (io_lift (get_prop response ''value'')) (\<lambda>value.
          if \<not> truthy value then
            io_throw (SolanaError ''Block not found'' ''BLOCK_NOT_FOUND'' NoDetails)
          else
            io_lift (build_object
              [(''blockhash'', get_prop value ''blockhash''),
               (''previousBlockhash'', get_prop value ''previousBlockhash''),
               (''parentSlot'', get_prop value ''parentSlot''),
               (''transactions'', or_default (get_prop value ''transactions'') (JArr [])),
               (''rewards'', or_default (get_prop value ''rewards'') (JArr [])),
               (''blockTime'', get_prop value ''blockTime''),
               (''blockHeight'', get_prop value ''blockHeight'')]))))
       (\<lambda>error. io_throw (SolanaError ''Failed to get block'' ''BLOCK_ERROR'' (CausedBy error)))"

subsection \<open>Delegated operations\<close>

definition LicenseChainSolana_createLicense ::
  "LicenseChainSolana \<Rightarrow> server \<Rightarrow> jsval \<Rightarrow> jsval \<Rightarrow> jsval \<Rightarrow> jsval io" where
  "LicenseChainSolana_createLicense client srv userId productId metadata =
     SolanaLicenseManager_createLicense (licenseManager client) srv userId productId metadata"

definition LicenseChainSolana_validateLicense :: "LicenseChainSolana \<Rightarrow> server \<Rightarrow> jsval \<Rightarrow> jsval io" where
  "LicenseChainSolana_validateLicense client srv licenseKey =
     SolanaLicenseManager_validateLicense (licenseManager client) srv licenseKey"

definition LicenseChainSolana_getLicense :: "LicenseChainSolana \<Rightarrow> server \<Rightarrow> jsval \<Rightarrow> jsval io" where
  "LicenseChainSolana_getLicense client srv licenseId =
     SolanaLicenseManager_getLicense (licenseManager client) srv licenseId"

definition LicenseChainSolana_updateLicense ::
  "LicenseChainSolana \<Rightarrow> server \<Rightarrow> jsval \<Rightarrow> jsval \<Rightarrow> jsval io" where
  "LicenseChainSolana_updateLicense client srv licenseId updates =
     SolanaLicenseManager_updateLicense (licenseManager client) srv licenseId updates"

definition LicenseChainSolana_revokeLicense :: "LicenseChainSolana \<Rightarrow> server \<Rightarrow> jsval \<Rightarrow> jsval io" where
  "LicenseChainSolana_revokeLicense client srv licenseId =
     SolanaLicenseManager_revokeLicense (licenseManager client) srv licenseId"

definition LicenseChainSolana_createNFT ::
  "LicenseChainSolana \<Rightarrow> server \<Rightarrow> jsval \<Rightarrow> jsval \<Rightarrow> jsval io" where
  "LicenseChainSolana_createNFT client srv metadata owner =
     SolanaNFTManager_createNFT (nftManager client) srv metadata owner"

definition LicenseChainSolana_getNFT :: "LicenseChainSolana \<Rightarrow> server \<Rightarrow> jsval \<Rightarrow> jsval io" where
  "LicenseChainSolana_getNFT client srv mint = SolanaNFTManager_getNFT (nftManager client) srv mint"

definition LicenseChainSolana_transferNFT ::
  "LicenseChainSolana \<Rightarrow> server \<Rightarrow> jsval \<Rightarrow> jsval \<Rightarrow> jsval \<Rightarrow> jsval io" where
  "LicenseChainSolana_transferNFT client srv mint from to =
     SolanaNFTManager_transferNFT (nftManager client) srv mint from to"

definition LicenseChainSolana_getDeFiPositions :: "LicenseChainSolana \<Rightarrow> server \<Rightarrow> jsval \<Rightarrow> jsval io" where
  "LicenseChainSolana_getDeFiPositions client srv owner =
     SolanaDeFiManager_getPositions (defiManager client) srv owner"

text \<open>
  The client's \<open>addLiquidity\<close> calls the manager's method with its three arguments; the
  manager's method has four parameters, so its last one, \<open>owner\<close>, is \<open>undefined\<close>.
\<close>

definition LicenseChainSolana_addLiquidity ::
  "LicenseChainSolana \<Rightarrow> server \<Rightarrow> jsval \<Rightarrow> jsval \<Rightarrow> jsval \<Rightarrow> jsval io" where
  "LicenseChainSolana_addLiquidity client srv poolAddress amount owner =
     SolanaDeFiManager_addLiquidity (defiManager client) srv poolAddress amount owner JUndefined"

definition LicenseChainSolana_removeLiquidity ::
  "LicenseChainSolana \<Rightarrow> server \<Rightarrow> jsval \<Rightarrow> jsval \<Rightarrow> jsval \<Rightarrow> jsval io" where
  "LicenseChainSolana_removeLiquidity client srv poolAddress amount owner =
     SolanaDeFiManager_removeLiquidity (defiManager client) srv poolAddress amount owner"

section \<open>Concrete operations, keys and servers\<close>

text \<open>An operation that fails twice and then succeeds, and one that always fails.\<close>

definition flaky_operation :: "nat \<Rightarrow> string + nat" where
  "flaky_operation k = (if k < 2 then Inl ''down'' else Inr 7)"

definition failing_operation :: "nat \<Rightarrow> string + nat" where
  "failing_operation k = Inl ''down''"

text \<open>A client with the default endpoints, and a well-formed address.\<close>

definition example_config :: SolanaConfigInput where
  "example_config =
     \<lparr>in_apiKey = ''key'', in_baseUrl = None, in_rpcUrl = None, in_timeout = None,
      in_retries = None\<rparr>"

definition example_client :: LicenseChainSolana where
  "example_client = LicenseChainSolana_new example_config"

definition example_key :: jsval where
  "example_key = JStr ''11111111111111111111111111111111''"

text \<open>Servers that answer every request with status 200 and a fixed JSON body.\<close>

definition server_answering :: "jsval \<Rightarrow> server" where
  "server_answering body =
     (\<lambda>sent req. FetchResolved \<lparr>ok = True, status = 200, statusText = ''OK'', json_body = Some body\<rparr>)"

definition server_value_zero :: server where
  "server_value_zero = server_answering (JObj [(''value'', JNum 0)])"

definition server_value_null :: server where
  "server_value_null = server_answering (JObj [(''value'', JNull)])"

definition example_account_info :: jsval where
  "example_account_info =
     JObj [(''lamports'', JNum 5), (''executable'', JBool False),
           (''owner'', JStr ''11111111111111111111111111111111'')]"

definition server_value_account :: server where
  "server_value_account = server_answering (JObj [(''value'', example_account_info)])"



text \<open>A license as the backend returns it, and the server that answers with it.\<close>

definition example_license :: jsval where
  "example_license =
     JObj [(''id'', JStr ''L1''), (''licenseKey'', JStr ''K1''), (''status'', JStr ''active'')]"

definition server_license :: server where
  "server_license = server_answering (JObj [(''data'', example_license)])"

text \<open>The request that \<open>getAccount\<close> sends for that address with the default configuration.\<close>

definition example_getAccountInfo_request :: request where
  "example_getAccountInfo_request =
     \<lparr>req_url = ''https://api.mainnet-beta.solana.com'', req_method = ''POST'',
      req_headers = [(''Content-Type'', ''application/json''),
                     (''Authorization'', ''Bearer key''),
                     (''X-API-Version'', ''1.0'')],
      req_body = Some (JObj [(''jsonrpc'', JStr ''2.0''), (''id'', JNum 1),
                             (''method'', JStr ''getAccountInfo''),
                             (''params'', JArr [JStr ''11111111111111111111111111111111''])]),
      req_timeout = 30000\<rparr>"

text \<open>Property access on a value known not to be \<open>undefined\<close> or \<open>null\<close>.\<close>

definition property_of :: "jsval \<Rightarrow> string \<Rightarrow> jsval" where
  "property_of v k = (case get_prop v k of Inl _ \<Rightarrow> JUndefined | Inr w \<Rightarrow> w)"

section \<open>Effects: unfolding the combinators\<close>

lemmas io_defs = io_bind_def io_try_def io_throw_def io_lift_def io_return_def

section \<open>retry\<close>

lemma invocations_backoff: "invocations (backoff_trace d k n @ [Invoke]) = Suc n"
  by (induction n arbitrary: k) (simp_all add: invocations_def)

lemma attempt_invokes: "1 \<le> invocations (snd (attempt fn m d a c))"
proof (induction fn m d a c rule: attempt.induct)
  case (1 fn maxRetries delay attempts calls)
  show ?case
    by (subst attempt.simps) (simp add: invocations_def Let_def)
qed

text \<open>
  A run in which the first \<open>n\<close> invocations fail and the run ends at invocation \<open>n\<close>,
  because it succeeds or because the attempts are used up.
\<close>

lemma attempt_run:
  assumes "\<forall>k<n. isl (fn (c + k))"
    and "n = 0 \<or> a + int n < m"
    and "\<not> isl (fn (c + n)) \<or> m \<le> a + int n + 1"
  shows "attempt fn m d a c = (fn (c + n), backoff_trace d (a + 1) n @ [Invoke])"
  using assms
proof (induction n arbitrary: a c)
  case 0
  then show ?case by (subst attempt.simps) auto
next
  case (Suc n)
  have f0: "isl (fn c)" using Suc.prems(1) by force
  have cont: "\<not> m \<le> a + 1" using Suc.prems(2) by simp
  have step: "attempt fn m d (a + 1) (Suc c) = (fn (Suc c + n), backoff_trace d (a + 1 + 1) n @ [Invoke])"
  proof (rule Suc.IH)
    show "\<forall>k<n. isl (fn (Suc c + k))" using Suc.prems(1) by (metis Suc_less_eq add_Suc_shift)
    show "n = 0 \<or> a + 1 + int n < m" using Suc.prems(2) by simp
    show "\<not> isl (fn (Suc c + n)) \<or> m \<le> a + 1 + int n + 1" using Suc.prems(3) by simp
  qed
  show ?case
    by (subst attempt.simps) (simp add: f0 cont step Let_def)
qed

text \<open>
  Claim C5. \<open>retry\<close> invokes the operation at least once, whatever \<open>maxRetries\<close> is (0
  included). When the first \<open>n\<close> invocations fail and the next succeeds within the
  attempts allowed, the run waits \<open>delay * k\<close> after failure number \<open>k\<close> and returns that
  success. An operation that always fails is invoked \<open>maxRetries\<close> times (once when
  \<open>maxRetries\<close> is below 1) and the run ends with its last error. With 3 attempts, two
  failures and a success give the success after exactly 3 invocations.
\<close>

theorem retry_behaviour:
  "1 \<le> invocations (snd (retry fn m d)) \<and>
   ((\<forall>k<n. isl (fn k)) \<longrightarrow> (n = 0 \<or> int n < m) \<longrightarrow> \<not> isl (fn n) \<longrightarrow>
      retry fn m d = (fn n, backoff_trace d 1 n @ [Invoke])) \<and>
   ((\<forall>k. isl (fn k)) \<longrightarrow>
      retry fn m d = (fn (nat (max 1 m) - 1), backoff_trace d 1 (nat (max 1 m) - 1) @ [Invoke]) \<and>
      invocations (snd (retry fn m d)) = nat (max 1 m)) \<and>
   (fn 0 = Inl e1 \<longrightarrow> fn 1 = Inl e2 \<longrightarrow> fn 2 = Inr v \<longrightarrow>
      fst (retry fn 3 d) = Inr v \<and> invocations (snd (retry fn 3 d)) = 3 \<and>
      snd (retry fn 3 d) = [Invoke, Wait (d * 1), Invoke, Wait (d * 2), Invoke])"
proof (intro conjI impI)
  show "1 \<le> invocations (snd (retry fn m d))"
    unfolding retry_def by (rule attempt_invokes)
next
  assume "\<forall>k<n. isl (fn k)" "n = 0 \<or> int n < m" "\<not> isl (fn n)"
  then show "retry fn m d = (fn n, backoff_trace d 1 n @ [Invoke])"
    unfolding retry_def using attempt_run [of n fn 0 0 m d] by simp
next
  assume all: "\<forall>k. isl (fn k)"
  let ?N = "nat (max 1 m) - 1"
  have c1: "?N = 0 \<or> 0 + int ?N < m" by (cases "m \<le> 1") auto
  have c2: "\<not> isl (fn (0 + ?N)) \<or> m \<le> 0 + int ?N + 1" by (cases "m \<le> 1") auto
  have c0: "\<forall>k<?N. isl (fn (0 + k))" using all by simp
  have r: "retry fn m d = (fn ?N, backoff_trace d 1 ?N @ [Invoke])"
    unfolding retry_def using attempt_run [OF c0 c1 c2, of d] by simp
  then show "retry fn m d = (fn ?N, backoff_trace d 1 ?N @ [Invoke])" .
  show "invocations (snd (retry fn m d)) = nat (max 1 m)"
    by (simp add: r invocations_backoff)
next
  assume h: "fn 0 = Inl e1" "fn 1 = Inl e2" "fn 2 = Inr v"
  have c0: "\<forall>k<2. isl (fn (0 + k))" using h by (auto simp: less_Suc_eq numeral_2_eq_2)
  have "attempt fn 3 d 0 0 = (fn (0 + 2), backoff_trace d (0 + 1) 2 @ [Invoke])"
    by (rule attempt_run [OF c0]) (simp_all add: h)
  moreover have "fn (0 + 2) = Inr v" using h(3) by (simp add: numeral_2_eq_2)
  ultimately have r: "retry fn 3 d = (Inr v, backoff_trace d 1 2 @ [Invoke])"
    by (simp only: retry_def add_0)
  show "fst (retry fn 3 d) = Inr v" by (simp add: r h)
  show "invocations (snd (retry fn 3 d)) = 3" by (simp add: r invocations_backoff)
  show "snd (retry fn 3 d) = [Invoke, Wait (d * 1), Invoke, Wait (d * 2), Invoke]"
    by (simp add: r numeral_2_eq_2)
qed

theorem retry_behaviour_witness:
  "fst (retry flaky_operation 3 1000) = Inr 7 \<and>
   invocations (snd (retry flaky_operation 3 1000)) = 3 \<and>
   snd (retry flaky_operation 3 1000) = [Invoke, Wait 1000, Invoke, Wait 2000, Invoke] \<and>
   retry failing_operation 3 1000 = (Inl ''down'', [Invoke, Wait 1000, Invoke, Wait 2000, Invoke]) \<and>
   invocations (snd (retry failing_operation 0 1000)) = 1"
  using retry_behaviour [of flaky_operation 3 1000 2 "''down''" "''down''" 7]
    retry_behaviour [of failing_operation 3 1000 0]
    retry_behaviour [of failing_operation 0 1000 0]
  by (simp add: flaky_operation_def failing_operation_def eval_nat_numeral invocations_def)

section \<open>validatePublicKey\<close>

lemma base58_codes:
  "(49 \<le> n \<and> n \<le> 57 \<or> 65 \<le> n \<and> n \<le> 72 \<or> 74 \<le> n \<and> n \<le> 78 \<or> 80 \<le> n \<and> n \<le> 90 \<or>
    97 \<le> n \<and> n \<le> 107 \<or> 109 \<le> n \<and> n \<le> 122) \<longleftrightarrow>
   n \<in> {49, 50, 51, 52, 53, 54, 55, 56, 57, 65, 66, 67, 68, 69, 70, 71, 72, 74, 75, 76, 77, 78,
         80, 81, 82, 83, 84, 85, 86, 87, 88, 89, 90, 97, 98, 99, 100, 101, 102, 103, 104, 105, 106,
         107, 109, 110, 111, 112, 113, 114, 115, 116, 117, 118, 119, 120, 121, 122 :: nat}"
  by (simp only: insert_iff empty_iff) presburger

lemma alphabet_codes:
  "char_code ` set base58_alphabet =
     {49, 50, 51, 52, 53, 54, 55, 56, 57, 65, 66, 67, 68, 69, 70, 71, 72, 74, 75, 76, 77, 78,
      80, 81, 82, 83, 84, 85, 86, 87, 88, 89, 90, 97, 98, 99, 100, 101, 102, 103, 104, 105, 106,
      107, 109, 110, 111, 112, 113, 114, 115, 116, 117, 118, 119, 120, 121, 122}"
  by (simp add: base58_alphabet_def char_code_def)

lemma base58_class_alphabet: "base58_class c \<longleftrightarrow> c \<in> set base58_alphabet"
proof -
  have "inj char_code" unfolding char_code_def [abs_def] by (rule inj_of_char)
  then have "c \<in> set base58_alphabet \<longleftrightarrow> char_code c \<in> char_code ` set base58_alphabet"
    by (simp add: inj_image_mem_iff)
  also have "\<dots> \<longleftrightarrow> base58_class c"
    unfolding alphabet_codes base58_codes [symmetric]
    by (simp add: base58_class_def in_range_def char_code_def)
  finally show ?thesis by simp
qed

lemma excluded_not_in_alphabet:
  "c \<in> {CHR ''0'', CHR ''O'', CHR ''I'', CHR ''l''} \<Longrightarrow> c \<notin> set base58_alphabet"
  by (auto simp: base58_alphabet_def)

text \<open>
  Claim C3. \<open>validatePublicKey\<close> is true exactly for the non-empty strings of 32 to 44
  characters, all in the base58 alphabet; a string containing \<open>0\<close>, \<open>O\<close>, \<open>I\<close> or \<open>l\<close>, a
  string shorter than 32 or longer than 44 characters, and a value that is not a string
  give false. As a function it has a value on every argument and raises nothing.
\<close>

theorem validatePublicKey_iff:
  "(validatePublicKey k \<longleftrightarrow>
      (\<exists>s. k = JStr s \<and> s \<noteq> [] \<and> 32 \<le> length s \<and> length s \<le> 44 \<and> set s \<subseteq> set base58_alphabet)) \<and>
   (set s \<inter> {CHR ''0'', CHR ''O'', CHR ''I'', CHR ''l''} \<noteq> {} \<longrightarrow> \<not> validatePublicKey (JStr s)) \<and>
   (length s < 32 \<or> 44 < length s \<longrightarrow> \<not> validatePublicKey (JStr s)) \<and>
   (\<not> is_string k \<longrightarrow> \<not> validatePublicKey k)"
proof -
  have main: "validatePublicKey k \<longleftrightarrow>
      (\<exists>s. k = JStr s \<and> s \<noteq> [] \<and> 32 \<le> length s \<and> length s \<le> 44 \<and> set s \<subseteq> set base58_alphabet)" for k
  proof (cases k)
    case (JStr s)
    show ?thesis unfolding JStr
      by (simp add: validatePublicKey_def base58Regex_test_def list_all_iff base58_class_alphabet
          subset_iff not_less) blast
  qed (simp_all add: validatePublicKey_def)
  have excl: "\<not> validatePublicKey (JStr s)" if "set s \<inter> {CHR ''0'', CHR ''O'', CHR ''I'', CHR ''l''} \<noteq> {}"
  proof -
    from that obtain c where "c \<in> set s" "c \<in> {CHR ''0'', CHR ''O'', CHR ''I'', CHR ''l''}" by blast
    then have "\<not> set s \<subseteq> set base58_alphabet" using excluded_not_in_alphabet by blast
    then show ?thesis by (simp add: main)
  qed
  have len: "\<not> validatePublicKey (JStr s)" if "length s < 32 \<or> 44 < length s"
  proof
    assume "validatePublicKey (JStr s)"
    then have "32 \<le> length s \<and> length s \<le> 44" by (simp add: main)
    with that show False by linarith
  qed
  have nostr: "\<not> validatePublicKey k" if "\<not> is_string k"
  proof
    assume "validatePublicKey k"
    then obtain s where "k = JStr s" unfolding main by blast
    with that show False by simp
  qed
  show ?thesis
    by (intro conjI impI) (rule main, erule excl, erule len, erule nostr)
qed

theorem validatePublicKey_iff_witness:
  "validatePublicKey (JStr ''11111111111111111111111111111111'') \<and>
   \<not> validatePublicKey (JStr ''01111111111111111111111111111111'') \<and>
   \<not> validatePublicKey (JStr ''bad-mint'') \<and>
   \<not> validatePublicKey (JNum 5)"
  using validatePublicKey_iff [of "JStr ''11111111111111111111111111111111''" "''01111111111111111111111111111111''"]
    validatePublicKey_iff [of "JNum 5" "''bad-mint''"]
  by (simp add: base58_alphabet_def)



section \<open>Webhook signature\<close>

lemma concat_replicate_nth:
  "key \<noteq> [] \<Longrightarrow> i < n * length key \<Longrightarrow> concat (replicate n key) ! i = key ! (i mod length key)"
proof (induction n arbitrary: i)
  case 0
  then show ?case by simp
next
  case (Suc n)
  show ?case
  proof (cases "i < length key")
    case True
    then show ?thesis by (simp add: nth_append)
  next
    case False
    then have "i - length key < n * length key" using Suc.prems(2) by simp
    then have "concat (replicate n key) ! (i - length key) = key ! ((i - length key) mod length key)"
      using Suc.IH Suc.prems(1) by blast
    moreover have "(i - length key) mod length key = i mod length key"
      using False by (simp add: le_mod_geq)
    ultimately show ?thesis using False by (simp add: nth_append)
  qed
qed

lemma length_repeating_key: "key \<noteq> [] \<Longrightarrow> length (repeating_key key n) = n"
proof -
  assume "key \<noteq> []"
  then have "1 \<le> length key" by (cases key) auto
  then have "n * 1 \<le> n * length key" by (rule mult_le_mono2)
  then show ?thesis by (simp add: repeating_key_def length_concat sum_list_replicate)
qed

lemma repeating_key_nth:
  assumes "key \<noteq> []" "i < n"
  shows "repeating_key key n ! i = key ! (i mod length key)"
proof -
  have "1 \<le> length key" using assms(1) by (cases key) auto
  then have "n * 1 \<le> n * length key" by (rule mult_le_mono2)
  then have "n \<le> n * length key" by simp
  then have "i < n * length key" by (rule less_le_trans [OF assms(2)])
  then show ?thesis using assms by (simp add: repeating_key_def concat_replicate_nth)
qed

lemma xor_refines:
  assumes "key \<noteq> []"
  shows "map (\<lambda>(i, byte). byte XOR key_at key i) (enumerate 0 data) = xor_with_repeating_key data key"
proof (rule nth_equalityI)
  show "length (map (\<lambda>(i, byte). byte XOR key_at key i) (enumerate 0 data)) = length (xor_with_repeating_key data key)"
    by (simp add: xor_with_repeating_key_def length_repeating_key assms)
next
  fix i assume "i < length (map (\<lambda>(i, byte). byte XOR key_at key i) (enumerate 0 data))"
  then have i: "i < length data" by simp
  then show "map (\<lambda>(i, byte). byte XOR key_at key i) (enumerate 0 data) ! i = xor_with_repeating_key data key ! i"
    by (simp add: xor_with_repeating_key_def length_repeating_key repeating_key_nth assms nth_enumerate_eq key_at_def)
qed

lemma xor_empty_key: "map (\<lambda>(i, byte). byte XOR key_at [] i) (enumerate 0 data) = data"
  by (rule nth_equalityI) (simp_all add: key_at_def nth_enumerate_eq)

lemma TextEncoder_nonempty: "s \<noteq> [] \<Longrightarrow> TextEncoder_encode s \<noteq> []"
  by (cases s) (auto simp: TextEncoder_encode_def)

text \<open>
  Claim C9. \<open>createWebhookSignature\<close> is the base64 encoding of the payload bytes XORed
  with the repeating key bytes (with an empty secret, of the payload bytes themselves);
  \<open>verifyWebhookSignature\<close> holds exactly for that signature, so it accepts the signature
  made for the same payload and secret.
\<close>

theorem webhook_signature:
  "(secret \<noteq> [] \<longrightarrow>
      createWebhookSignature payload secret =
        btoa (xor_with_repeating_key (TextEncoder_encode payload) (TextEncoder_encode secret))) \<and>
   createWebhookSignature payload [] = btoa (TextEncoder_encode payload) \<and>
   (verifyWebhookSignature payload signature secret \<longleftrightarrow>
      signature = createWebhookSignature payload secret) \<and>
   verifyWebhookSignature payload (createWebhookSignature payload secret) secret"
proof (intro conjI impI)
  assume "secret \<noteq> []"
  then show "createWebhookSignature payload secret =
        btoa (xor_with_repeating_key (TextEncoder_encode payload) (TextEncoder_encode secret))"
    by (simp add: createWebhookSignature_def Let_def xor_refines TextEncoder_nonempty)
next
  have "TextEncoder_encode [] = []" by (simp add: TextEncoder_encode_def)
  then show "createWebhookSignature payload [] = btoa (TextEncoder_encode payload)"
    by (simp add: createWebhookSignature_def Let_def xor_empty_key)
next
  show "verifyWebhookSignature payload signature secret \<longleftrightarrow>
      signature = createWebhookSignature payload secret"
    by (simp add: verifyWebhookSignature_def Let_def)
next
  show "verifyWebhookSignature payload (createWebhookSignature payload secret) secret"
    by (simp add: verifyWebhookSignature_def Let_def)
qed

theorem webhook_signature_witness:
  "createWebhookSignature ''hi'' ''k'' = btoa [3, 2] \<and>
   createWebhookSignature ''hi'' ''k'' = ''AwI='' \<and>
   verifyWebhookSignature ''hi'' ''AwI='' ''k''"
proof -
  have x: "xor_with_repeating_key (TextEncoder_encode ''hi'') (TextEncoder_encode ''k'') = [3, 2]"
    by code_simp
  have b: "btoa [3, 2] = ''AwI=''"
    by code_simp
  show ?thesis
    using webhook_signature [of "''k''" "''hi''" "''AwI=''"] by (simp add: x b del: btoa.simps)
qed

section \<open>getAccount\<close>

lemma rpc_returns:
  assumes "makeRPCRequest config srv method params sent = (Inr response, sent')"
  shows "\<exists>e. get_prop response ''error'' = Inr e"
  using assms
  by (auto simp: makeRPCRequest_def Let_def io_try_def io_bind_def fetch_def io_throw_def io_lift_def io_return_def response_json_def
      split: fetch_outcome.splits if_splits option.splits sum.splits prod.splits)

lemma get_prop_total: "get_prop v k = Inr e \<Longrightarrow> get_prop v k' = Inr (property_of v k')"
  by (cases v) (auto simp: property_of_def)

lemma truthy_get_prop: "truthy v \<Longrightarrow> get_prop v k = Inr (property_of v k)"
  by (cases v) (auto simp: property_of_def)

lemma falsy_values: "\<not> truthy v \<longleftrightarrow> v \<in> {JUndefined, JNull, JBool False, JNum 0, JStr []}"
  by (cases v) auto

text \<open>
  Claim C6, as stated, fails when the \<open>value\<close> field is present and not \<open>null\<close> but falsy:
  for the response \<open>{value: 0}\<close> the claim promises an account, and \<open>getAccount\<close> raises
  the \<open>AccountError\<close>.
\<close>

theorem getAccount_value_zero_counterexample:
  "validatePublicKey example_key \<and>
   makeRPCRequest (client_config example_client) server_value_zero ''getAccountInfo'' [example_key] [] =
     (Inr (JObj [(''value'', JNum 0)]), [example_getAccountInfo_request]) \<and>
   get_prop (JObj [(''value'', JNum 0)]) ''value'' = Inr (JNum 0) \<and>
   JNum 0 \<noteq> JNull \<and> JNum 0 \<noteq> JUndefined \<and>
   LicenseChainSolana_getAccount example_client server_value_zero example_key [] =
     (Inl (SolanaAccountError ''Account not found'' example_key NoDetails),
      [example_getAccountInfo_request])"
  by code_simp

text \<open>
  Claim C6, amended. For a valid key and an RPC request that returns a response,
  \<open>getAccount\<close> raises \<open>AccountError\<close> with code \<open>ACCOUNT_ERROR\<close> whenever the response's
  \<open>value\<close> field is missing, \<open>null\<close> or another falsy value (\<open>false\<close>, 0, the empty
  string), and otherwise returns the account built from the fields of \<open>value\<close>.
\<close>

theorem getAccount_after_rpc:
  assumes "validatePublicKey key"
    and "makeRPCRequest (client_config client) srv ''getAccountInfo'' [key] sent = (Inr response, sent')"
  shows "LicenseChainSolana_getAccount client srv key sent =
     (if property_of response ''value'' \<in> {JUndefined, JNull, JBool False, JNum 0, JStr []}
      then Inl (SolanaAccountError ''Account not found'' key NoDetails)
      else Inr (JObj [(''publicKey'', key),
                      (''balance'', property_of (property_of response ''value'') ''lamports''),
                      (''isExecutable'', property_of (property_of response ''value'') ''executable''),
                      (''owner'', property_of (property_of response ''value'') ''owner''),
                      (''lamports'', property_of (property_of response ''value'') ''lamports'')]),
      sent') \<and>
     error_kind (SolanaAccountError ''Account not found'' key NoDetails) = Some SolanaAccountErrorC \<and>
     error_code (SolanaAccountError ''Account not found'' key NoDetails) = Some ''ACCOUNT_ERROR''"
proof -
  obtain e where "get_prop response ''error'' = Inr e" using rpc_returns [OF assms(2)] by blast
  then have v: "get_prop response ''value'' = Inr (property_of response ''value'')" by (rule get_prop_total)
  show ?thesis
  proof (cases "truthy (property_of response ''value'')")
    case True
    then show ?thesis
      using assms v falsy_values [of "property_of response ''value''"]
      by (simp add: LicenseChainSolana_getAccount_def formatPublicKey_def io_defs truthy_get_prop
          build_object_def SolanaAccountError_def)
  next
    case False
    then show ?thesis
      using assms v falsy_values [of "property_of response ''value''"]
      by (simp add: LicenseChainSolana_getAccount_def formatPublicKey_def io_defs SolanaAccountError_def)
  qed
qed



theorem getAccount_after_rpc_witness:
  "LicenseChainSolana_getAccount example_client server_value_account example_key [] =
     (Inr (JObj [(''publicKey'', example_key), (''balance'', JNum 5),
                 (''isExecutable'', JBool False),
                 (''owner'', JStr ''11111111111111111111111111111111''),
                 (''lamports'', JNum 5)]),
      [example_getAccountInfo_request]) \<and>
   LicenseChainSolana_getAccount example_client server_value_null example_key [] =
     (Inl (SolanaAccountError ''Account not found'' example_key NoDetails),
      [example_getAccountInfo_request])"
proof -
  have k: "validatePublicKey example_key"
    by code_simp
  have r1: "makeRPCRequest (client_config example_client) server_value_account ''getAccountInfo''
              [example_key] [] =
            (Inr (JObj [(''value'', example_account_info)]), [example_getAccountInfo_request])"
    by code_simp
  have r2: "makeRPCRequest (client_config example_client) server_value_null ''getAccountInfo''
              [example_key] [] =
            (Inr (JObj [(''value'', JNull)]), [example_getAccountInfo_request])"
    by code_simp
  show ?thesis
    using getAccount_after_rpc [OF k r1] getAccount_after_rpc [OF k r2]
    by (simp add: property_of_def example_account_info_def)
qed

section \<open>Error propagation\<close>

text \<open>The request helpers throw typed errors only.\<close>

lemma makeRequest_throws_typed:
  "makeRequest config srv method endpoint data sent = (Inl e, sent') \<Longrightarrow> instanceof_SolanaError e"
  by (auto simp: makeRequest_def Let_def io_defs fetch_def response_json_def SolanaNetworkError_def
      split: fetch_outcome.splits if_splits option.splits sum.splits prod.splits)

lemma makeRPCRequest_throws_typed:
  "makeRPCRequest config srv method params sent = (Inl e, sent') \<Longrightarrow> instanceof_SolanaError e"
  by (auto simp: makeRPCRequest_def Let_def io_defs fetch_def response_json_def
        SolanaNetworkError_def SolanaRPCError_def
      split: fetch_outcome.splits if_splits option.splits sum.splits prod.splits)

lemma validatePublicKey_truthy: "validatePublicKey v \<Longrightarrow> truthy v"
  by (simp add: validatePublicKey_def split: if_splits)

text \<open>
  \<open>getAccount\<close> and the managers check \<open>instanceof SolanaError\<close> in their catch clause
  and re-throw a typed error as it is.
\<close>

lemma getAccount_passes_validation_error:
  "\<not> validatePublicKey key \<Longrightarrow>
   LicenseChainSolana_getAccount client srv key sent =
     (Inl (SolanaValidationError ''Invalid public key format'' NoDetails), sent)"
  by (simp add: LicenseChainSolana_getAccount_def formatPublicKey_def io_defs SolanaValidationError_def)

lemma getAccount_passes_request_error:
  assumes "validatePublicKey key"
    and "makeRPCRequest (client_config client) srv ''getAccountInfo'' [key] sent = (Inl e, sent')"
  shows "LicenseChainSolana_getAccount client srv key sent = (Inl e, sent')"
  using assms makeRPCRequest_throws_typed [OF assms(2)]
  by (simp add: LicenseChainSolana_getAccount_def formatPublicKey_def io_defs)

lemma getPositions_passes_request_error:
  assumes "validatePublicKey owner"
    and "makeRequest config srv ''GET'' (''/defi/positions/'' @ js_toString owner) JUndefined sent =
           (Inl e, sent')"
  shows "SolanaDeFiManager_getPositions config srv owner sent = (Inl e, sent')"
  using assms makeRequest_throws_typed [OF assms(2)] validatePublicKey_truthy [OF assms(1)]
  by (simp add: SolanaDeFiManager_getPositions_def io_defs)

text \<open>\<open>getBalance\<close> has no such check: a typed error of the request is wrapped as well.\<close>

lemma getBalance_wraps_request_error:
  assumes "validatePublicKey key"
    and "makeRPCRequest (client_config client) srv ''getBalance'' [key] sent = (Inl e, sent')"
  shows "LicenseChainSolana_getBalance client srv key sent =
           (Inl (SolanaAccountError ''Failed to get balance'' key (CausedBy e)), sent')"
  using assms by (simp add: LicenseChainSolana_getBalance_def formatPublicKey_def io_defs)

text \<open>
  Nor has \<open>getBlock\<close>: the error with code \<open>BLOCK_NOT_FOUND\<close> that it throws for a
  missing block is caught by its own catch clause, and no error of \<open>getBlock\<close> reaches the
  caller with a code other than \<open>BLOCK_ERROR\<close>.
\<close>

lemma getBlock_error_code:
  "LicenseChainSolana_getBlock client srv slot sent = (Inl e, sent') \<Longrightarrow>
   error_code e = Some ''BLOCK_ERROR''"
  by (auto simp: LicenseChainSolana_getBlock_def io_try_def io_throw_def SolanaError_def
      split: prod.splits sum.splits)

lemma getBlock_not_found:
  "fst (LicenseChainSolana_getBlock example_client server_value_null (JNum 1) []) =
     Inl (SolanaError ''Failed to get block'' ''BLOCK_ERROR''
           (CausedBy (SolanaError ''Block not found'' ''BLOCK_NOT_FOUND'' NoDetails)))"
  by code_simp

text \<open>
  Claim C1 asks every public operation to re-throw an already typed error unchanged. The
  code of \<open>getBalance\<close> on a malformed key: the \<open>ValidationError\<close> of the local check is
  caught and wrapped, and the caller receives an \<open>AccountError\<close> with code \<open>ACCOUNT_ERROR\<close>
  that carries the \<open>ValidationError\<close> as its details.
\<close>

theorem getBalance_wraps_validation_error:
  "\<not> validatePublicKey key \<Longrightarrow>
   LicenseChainSolana_getBalance client srv key sent =
     (Inl (SolanaAccountError ''Failed to get balance'' key
            (CausedBy (SolanaValidationError ''Invalid public key format'' NoDetails))), sent) \<and>
   error_code (SolanaAccountError ''Failed to get balance'' key
            (CausedBy (SolanaValidationError ''Invalid public key format'' NoDetails))) =
     Some ''ACCOUNT_ERROR''"
  by (simp add: LicenseChainSolana_getBalance_def formatPublicKey_def io_defs SolanaAccountError_def)

theorem getBalance_wraps_validation_error_witness:
  "LicenseChainSolana_getBalance example_client server_value_null (JStr ''bad'') [] =
     (Inl (SolanaAccountError ''Failed to get balance'' (JStr ''bad'')
            (CausedBy (SolanaValidationError ''Invalid public key format'' NoDetails))), []) \<and>
   error_code (SolanaAccountError ''Failed to get balance'' (JStr ''bad'')
            (CausedBy (SolanaValidationError ''Invalid public key format'' NoDetails))) =
     Some ''ACCOUNT_ERROR'' \<and>
   error_code (SolanaValidationError ''Invalid public key format'' NoDetails) =
     Some ''VALIDATION_ERROR''"
  using getBalance_wraps_validation_error [of "JStr ''bad''" example_client server_value_null "[]"]
  by (simp add: validatePublicKey_def SolanaValidationError_def)

section \<open>Address validation before the request\<close>

text \<open>The managers reject a missing or malformed address with a \<open>ValidationError\<close>, nothing sent.\<close>

lemma transferNFT_rejects:
  "\<not> (validatePublicKey mint \<and> validatePublicKey from \<and> validatePublicKey to) \<Longrightarrow>
   \<exists>message. SolanaNFTManager_transferNFT config srv mint from to sent =
     (Inl (SolanaValidationError message NoDetails), sent)"
  by (auto simp: SolanaNFTManager_transferNFT_def io_defs SolanaValidationError_def)

lemma transferNFT_bad_mint:
  "truthy from \<Longrightarrow> truthy to \<Longrightarrow>
   SolanaNFTManager_transferNFT config srv (JStr ''bad-mint'') from to sent =
     (Inl (SolanaValidationError ''Invalid address format'' NoDetails), sent)"
  by (simp add: SolanaNFTManager_transferNFT_def validatePublicKey_def io_defs SolanaValidationError_def)

lemma createNFT_rejects:
  "\<not> validatePublicKey owner \<Longrightarrow>
   \<exists>message. SolanaNFTManager_createNFT config srv metadata owner sent =
     (Inl (SolanaValidationError message NoDetails), sent)"
  by (auto simp: SolanaNFTManager_createNFT_def io_defs SolanaValidationError_def)

lemma getNFT_rejects:
  "\<not> validatePublicKey mint \<Longrightarrow>
   \<exists>message. SolanaNFTManager_getNFT config srv mint sent =
     (Inl (SolanaValidationError message NoDetails), sent)"
  by (auto simp: SolanaNFTManager_getNFT_def io_defs SolanaValidationError_def)

lemma getPositions_rejects:
  "\<not> validatePublicKey owner \<Longrightarrow>
   \<exists>message. SolanaDeFiManager_getPositions config srv owner sent =
     (Inl (SolanaValidationError message NoDetails), sent)"
  by (auto simp: SolanaDeFiManager_getPositions_def io_defs SolanaValidationError_def)

lemma addLiquidity_rejects:
  "\<not> (validatePublicKey poolAddress \<and> validatePublicKey owner) \<Longrightarrow>
   \<exists>message. SolanaDeFiManager_addLiquidity config srv poolAddress amountA amountB owner sent =
     (Inl (SolanaValidationError message NoDetails), sent)"
  by (auto simp: SolanaDeFiManager_addLiquidity_def io_defs SolanaValidationError_def)

lemma removeLiquidity_rejects:
  "\<not> (validatePublicKey poolAddress \<and> validatePublicKey owner) \<Longrightarrow>
   \<exists>message. SolanaDeFiManager_removeLiquidity config srv poolAddress lpTokens owner sent =
     (Inl (SolanaValidationError message NoDetails), sent)"
  by (auto simp: SolanaDeFiManager_removeLiquidity_def io_defs SolanaValidationError_def)

text \<open>
  Of the client's own operations, \<open>getBalance\<close>, \<open>getTokenAccounts\<close>, \<open>getProgram\<close> and
  \<open>getStakeAccounts\<close> send nothing for a malformed address either, but what they throw is
  their wrapper around the \<open>ValidationError\<close>.
\<close>

lemma getProgram_wraps_validation_error:
  "\<not> validatePublicKey programId \<Longrightarrow>
   LicenseChainSolana_getProgram client srv programId sent =
     (Inl (SolanaAccountError ''Failed to get program'' programId
            (CausedBy (SolanaValidationError ''Invalid public key format'' NoDetails))), sent)"
  by (simp add: LicenseChainSolana_getProgram_def formatPublicKey_def io_defs)

lemma getStakeAccounts_wraps_validation_error:
  "\<not> validatePublicKey owner \<Longrightarrow>
   LicenseChainSolana_getStakeAccounts client srv owner sent =
     (Inl (SolanaError ''Failed to get stake accounts'' ''STAKE_ERROR''
            (CausedBy (SolanaValidationError ''Invalid public key format'' NoDetails))), sent)"
  by (simp add: LicenseChainSolana_getStakeAccounts_def formatPublicKey_def io_defs)

text \<open>
  Claim C4 asks every operation with an address argument to raise a \<open>ValidationError\<close>
  before any request. The code of \<open>getTokenAccounts\<close> on a malformed owner: no request
  is sent, and the error raised is an \<open>AccountError\<close> with code \<open>ACCOUNT_ERROR\<close>, not a
  \<open>ValidationError\<close>.
\<close>

theorem getTokenAccounts_malformed_owner:
  "\<not> validatePublicKey owner \<Longrightarrow>
   LicenseChainSolana_getTokenAccounts client srv owner mint sent =
     (Inl (SolanaAccountError ''Failed to get token accounts'' owner
            (CausedBy (SolanaValidationError ''Invalid public key format'' NoDetails))), sent) \<and>
   error_kind (SolanaAccountError ''Failed to get token accounts'' owner
            (CausedBy (SolanaValidationError ''Invalid public key format'' NoDetails))) =
     Some SolanaAccountErrorC"
  by (simp add: LicenseChainSolana_getTokenAccounts_def formatPublicKey_def io_defs
      SolanaAccountError_def)

theorem getTokenAccounts_malformed_owner_witness:
  "LicenseChainSolana_getTokenAccounts example_client server_value_null (JStr ''bad-owner'')
     JUndefined [] =
     (Inl (SolanaAccountError ''Failed to get token accounts'' (JStr ''bad-owner'')
            (CausedBy (SolanaValidationError ''Invalid public key format'' NoDetails))), []) \<and>
   error_kind (SolanaAccountError ''Failed to get token accounts'' (JStr ''bad-owner'')
            (CausedBy (SolanaValidationError ''Invalid public key format'' NoDetails))) =
     Some SolanaAccountErrorC \<and>
   error_kind (SolanaValidationError ''Invalid public key format'' NoDetails) =
     Some SolanaValidationErrorC"
  using getTokenAccounts_malformed_owner
    [of "JStr ''bad-owner''" example_client server_value_null JUndefined "[]"]
  by (simp add: validatePublicKey_def SolanaValidationError_def)

section \<open>Delegation\<close>

text \<open>
  Claim C7. Each delegated operation of the client is the manager's method applied to the
  same arguments, on the manager that the constructor built from the client's own
  configuration. For \<open>addLiquidity\<close> these are the three arguments the client receives;
  the manager's fourth parameter is left \<open>undefined\<close>.
\<close>

theorem delegated_operations_forward:
  "LicenseChainSolana_createLicense client srv userId productId metadata =
     SolanaLicenseManager_createLicense (licenseManager client) srv userId productId metadata \<and>
   LicenseChainSolana_validateLicense client srv licenseKey =
     SolanaLicenseManager_validateLicense (licenseManager client) srv licenseKey \<and>
   LicenseChainSolana_getLicense client srv licenseId =
     SolanaLicenseManager_getLicense (licenseManager client) srv licenseId \<and>
   LicenseChainSolana_updateLicense client srv licenseId updates =
     SolanaLicenseManager_updateLicense (licenseManager client) srv licenseId updates \<and>
   LicenseChainSolana_revokeLicense client srv licenseId =
     SolanaLicenseManager_revokeLicense (licenseManager client) srv licenseId \<and>
   LicenseChainSolana_createNFT client srv metadata owner =
     SolanaNFTManager_createNFT (nftManager client) srv metadata owner \<and>
   LicenseChainSolana_getNFT client srv mint =
     SolanaNFTManager_getNFT (nftManager client) srv mint \<and>
   LicenseChainSolana_transferNFT client srv mint from to =
     SolanaNFTManager_transferNFT (nftManager client) srv mint from to \<and>
   LicenseChainSolana_getDeFiPositions client srv owner =
     SolanaDeFiManager_getPositions (defiManager client) srv owner \<and>
   LicenseChainSolana_addLiquidity client srv poolAddress amount owner =
     SolanaDeFiManager_addLiquidity (defiManager client) srv poolAddress amount owner JUndefined \<and>
   LicenseChainSolana_removeLiquidity client srv poolAddress amount owner =
     SolanaDeFiManager_removeLiquidity (defiManager client) srv poolAddress amount owner \<and>
   licenseManager (LicenseChainSolana_new c) = client_config (LicenseChainSolana_new c) \<and>
   nftManager (LicenseChainSolana_new c) = client_config (LicenseChainSolana_new c) \<and>
   defiManager (LicenseChainSolana_new c) = client_config (LicenseChainSolana_new c)"
  by (simp add: LicenseChainSolana_createLicense_def LicenseChainSolana_validateLicense_def
      LicenseChainSolana_getLicense_def LicenseChainSolana_updateLicense_def
      LicenseChainSolana_revokeLicense_def LicenseChainSolana_createNFT_def
      LicenseChainSolana_getNFT_def LicenseChainSolana_transferNFT_def
      LicenseChainSolana_getDeFiPositions_def LicenseChainSolana_addLiquidity_def
      LicenseChainSolana_removeLiquidity_def LicenseChainSolana_new_def Let_def)

theorem delegated_operations_forward_witness:
  "fst (LicenseChainSolana_createLicense example_client server_license (JStr ''u1'') (JStr ''p1'')
          (JObj []) []) = Inr example_license \<and>
   LicenseChainSolana_transferNFT example_client server_license (JStr ''bad-mint'') example_key
     example_key [] =
     (Inl (SolanaValidationError ''Invalid address format'' NoDetails), []) \<and>
   LicenseChainSolana_addLiquidity example_client server_license example_key (JStr ''1000000'')
     example_key [] =
     (Inl (SolanaValidationError ''Pool address, amounts, and owner are required'' NoDetails), [])"
proof -
  have m1: "fst (SolanaLicenseManager_createLicense (licenseManager example_client) server_license
              (JStr ''u1'') (JStr ''p1'') (JObj []) []) = Inr example_license"
    by code_simp
  have m2: "SolanaNFTManager_transferNFT (nftManager example_client) server_license
              (JStr ''bad-mint'') example_key example_key [] =
            (Inl (SolanaValidationError ''Invalid address format'' NoDetails), [])"
    by code_simp
  have m3: "SolanaDeFiManager_addLiquidity (defiManager example_client) server_license example_key
              (JStr ''1000000'') example_key JUndefined [] =
            (Inl (SolanaValidationError ''Pool address, amounts, and owner are required'' NoDetails), [])"
    by code_simp
  show ?thesis
    using delegated_operations_forward
      [where client = example_client and srv = server_license and userId = "JStr ''u1''"
         and productId = "JStr ''p1''" and metadata = "JObj []" and mint = "JStr ''bad-mint''"
         and ?from = example_key and to = example_key and poolAddress = example_key
         and amount = "JStr ''1000000''" and owner = example_key]
    by (simp add: m1 m2 m3)
qed

text \<open>
  With its last parameter \<open>undefined\<close> the manager's \<open>addLiquidity\<close> stops at its first
  check, so the client's \<open>addLiquidity\<close> rejects every call and sends nothing.
\<close>

lemma client_addLiquidity_always_rejects:
  "LicenseChainSolana_addLiquidity client srv poolAddress amount owner sent =
     (Inl (SolanaValidationError ''Pool address, amounts, and owner are required'' NoDetails), sent)"
  by (simp add: LicenseChainSolana_addLiquidity_def SolanaDeFiManager_addLiquidity_def io_defs
      SolanaValidationError_def)

section \<open>validatePrivateKey\<close>

text \<open>For a string without line terminators the number of pieces is half its length, rounded up.\<close>

lemma length_match_chunks:
  "\<forall>c\<in>set s. \<not> is_line_terminator c \<Longrightarrow> length (match_chunks s) = (length s + 1) div 2"
  by (induction s rule: match_chunks.induct) auto

text \<open>
  Claim C8 asks for false on every string that is not the hexadecimal encoding of 64
  bytes. The code decides by the number of pieces alone: a string without line
  terminators is accepted exactly when it has 127 or 128 characters, whatever they are
  (\<open>parseInt\<close> gives \<open>NaN\<close> for a piece that is not hexadecimal, stored as 0). So the
  string of 128 letters \<open>z\<close> is accepted.
\<close>

theorem validatePrivateKey_length_only:
  "\<forall>c\<in>set s. \<not> is_line_terminator c \<Longrightarrow>
   validatePrivateKey (KeyString s) \<longleftrightarrow> length s = 127 \<or> length s = 128"
  by (auto simp: validatePrivateKey_def length_match_chunks)

theorem validatePrivateKey_length_only_witness:
  "validatePrivateKey (KeyString (replicate 128 CHR ''z'')) \<and>
   \<not> hex_encoding_of_64_bytes (replicate 128 CHR ''z'') \<and>
   ToUint8 (parseInt16 ''zz'') = 0"
  using validatePrivateKey_length_only [of "replicate 128 CHR ''z''"]
  by (simp add: is_line_terminator_def char_code_def hex_encoding_of_64_bytes_def is_digit_of_def
      digit_value_def in_range_def parseInt16_def ToUint8_def is_whitespace_def list_all_iff)

section \<open>Unit conversion\<close>

subsection \<open>Digits\<close>

lemma is_digit_code: "is_digit c \<longleftrightarrow> 48 \<le> char_code c \<and> char_code c \<le> 57"
  by (simp add: is_digit_def in_range_def char_code_def)

lemma digit_value_digit: "is_digit c \<Longrightarrow> digit_value c = char_code c - 48"
  by (simp add: digit_value_def is_digit_def)

lemma digit_value_less: "is_digit c \<Longrightarrow> digit_value c < 10"
  by (auto simp: digit_value_digit is_digit_code)

lemma is_digit_of_10: "is_digit c \<Longrightarrow> is_digit_of 10 c"
  by (simp add: is_digit_of_def digit_value_less)

lemma all_digits_of_10: "list_all is_digit w \<Longrightarrow> w \<noteq> [] \<Longrightarrow> all_digits_of 10 w"
  by (auto simp: all_digits_of_def list_all_iff is_digit_of_10)

lemma char_of_digit: "is_digit c \<Longrightarrow> char_of (48 + int (digit_value c)) = c"
proof -
  assume d: "is_digit c"
  then have "48 + int (digit_value c) = int (char_code c)"
    by (auto simp: digit_value_digit is_digit_code)
  then show ?thesis by (simp add: char_code_def)
qed

lemma digit_value_zero: "is_digit c \<Longrightarrow> digit_value c = 0 \<longleftrightarrow> c = CHR ''0''"
proof -
  assume d: "is_digit c"
  have e: "(of_char c = (48::nat)) = (c = CHR ''0'')"
    using of_char_eq_iff [of c "CHR ''0''", where ?'a = nat] by simp
  have "digit_value c = 0 \<longleftrightarrow> char_code c = 48"
    using d by (auto simp: digit_value_digit is_digit_code)
  then show ?thesis using e by (simp add: char_code_def)
qed

lemma digit_not_special:
  "is_digit c \<Longrightarrow> \<not> is_whitespace c \<and>
     c \<notin> {CHR ''x'', CHR ''X'', CHR ''o'', CHR ''O'', CHR ''b'', CHR ''B'', CHR ''-'', CHR ''+'', CHR ''.''}"
  by (auto simp: is_digit_code is_whitespace_def char_code_def)

lemma digits_no_dot: "list_all is_digit w \<Longrightarrow> CHR ''.'' \<notin> set w"
  using digit_not_special by (auto simp: list_all_iff)

subsection \<open>The value of a digit string\<close>

lemma foldl_digits:
  "foldl (\<lambda>acc c. acc * int b + int (digit_value c)) a ds =
     a * int b ^ length ds + foldl (\<lambda>acc c. acc * int b + int (digit_value c)) 0 ds"
  by (induction ds rule: rev_induct) (simp_all add: algebra_simps)

lemma digits_value_append:
  "digits_value b (xs @ ys) = digits_value b xs * int b ^ length ys + digits_value b ys"
  unfolding digits_value_def foldl_append by (rule foldl_digits)

lemma digits_value_snoc:
  "digits_value b (xs @ [c]) = digits_value b xs * int b + int (digit_value c)"
  by (simp add: digits_value_def)

lemma digits_value_Nil: "digits_value b [] = 0"
  by (simp add: digits_value_def)

lemma digits_value_nonneg: "0 \<le> digits_value b ds"
  by (induction ds rule: rev_induct) (simp_all add: digits_value_snoc digits_value_Nil)

lemma digits_value_bound: "list_all is_digit ds \<Longrightarrow> digits_value 10 ds < 10 ^ length ds"
proof (induction ds rule: rev_induct)
  case Nil
  then show ?case by (simp add: digits_value_Nil)
next
  case (snoc c xs)
  then have "digits_value 10 xs < 10 ^ length xs" and "digit_value c < 10"
    by (simp_all add: digit_value_less)
  then show ?case by (simp add: digits_value_snoc)
qed

lemma digits_value_zero_iff:
  "list_all is_digit ds \<Longrightarrow> digits_value 10 ds = 0 \<longleftrightarrow> (\<forall>c\<in>set ds. c = CHR ''0'')"
proof (induction ds rule: rev_induct)
  case Nil
  then show ?case by (simp add: digits_value_Nil)
next
  case (snoc c xs)
  have nn: "0 \<le> digits_value 10 xs" by (rule digits_value_nonneg)
  have "digits_value 10 (xs @ [c]) = 0 \<longleftrightarrow> digits_value 10 xs = 0 \<and> digit_value c = 0"
    using nn by (auto simp: digits_value_snoc)
  then show ?case using snoc by (auto simp: digit_value_zero)
qed

subsection \<open>Printing a number\<close>

lemma digits_toString_step:
  assumes "0 \<le> m" "0 \<le> k" "k < 10"
  shows "digits_toString (m * 10 + k) =
     (if m = 0 then [char_of (48 + k)] else digits_toString m @ [char_of (48 + k)])"
proof (cases "m = 0")
  case True
  then show ?thesis using assms by (subst digits_toString.simps) simp
next
  case False
  then have "\<not> m * 10 + k < 10" using assms by simp
  moreover have "(m * 10 + k) div 10 = m" "(m * 10 + k) mod 10 = k" using assms by simp_all
  ultimately show ?thesis using False by (subst digits_toString.simps) simp
qed

lemma strip_leading_zeros_all_zero:
  "\<forall>c\<in>set xs. c = CHR ''0'' \<Longrightarrow> strip_leading_zeros (xs @ [c]) = [c]"
  by (cases "c = CHR ''0''") (simp_all add: strip_leading_zeros_def dropWhile_append2)

lemma strip_leading_zeros_nonzero:
  assumes "\<not> (\<forall>c\<in>set xs. c = CHR ''0'')"
  shows "strip_leading_zeros xs = dropWhile (\<lambda>c. c = CHR ''0'') xs"
    and "strip_leading_zeros (xs @ ys) = strip_leading_zeros xs @ ys"
proof -
  from assms obtain x where x: "x \<in> set xs" "x \<noteq> CHR ''0''" by blast
  then have ne: "dropWhile (\<lambda>c. c = CHR ''0'') xs \<noteq> []" by (auto simp: dropWhile_eq_Nil_conv)
  then show a: "strip_leading_zeros xs = dropWhile (\<lambda>c. c = CHR ''0'') xs"
    by (cases "dropWhile (\<lambda>c. c = CHR ''0'') xs") (simp_all add: strip_leading_zeros_def)
  have "dropWhile (\<lambda>c. c = CHR ''0'') (xs @ ys) = dropWhile (\<lambda>c. c = CHR ''0'') xs @ ys"
    using x by (simp add: dropWhile_append1)
  then show "strip_leading_zeros (xs @ ys) = strip_leading_zeros xs @ ys"
    using ne a by (cases "dropWhile (\<lambda>c. c = CHR ''0'') xs") (simp_all add: strip_leading_zeros_def)
qed

lemma digits_toString_digits_value:
  "list_all is_digit n \<Longrightarrow> n \<noteq> [] \<Longrightarrow> digits_toString (digits_value 10 n) = strip_leading_zeros n"
proof (induction n rule: rev_induct)
  case Nil
  then show ?case by simp
next
  case (snoc c xs)
  have dc: "is_digit c" and dxs: "list_all is_digit xs" using snoc.prems by simp_all
  have step: "digits_toString (digits_value 10 (xs @ [c])) =
      (if digits_value 10 xs = 0 then [c] else digits_toString (digits_value 10 xs) @ [c])"
    using digits_toString_step [of "digits_value 10 xs" "int (digit_value c)"]
      digits_value_nonneg [of 10 xs] digit_value_less [OF dc] char_of_digit [OF dc]
    by (simp add: digits_value_snoc)
  show ?case
  proof (cases "digits_value 10 xs = 0")
    case True
    then have "\<forall>c\<in>set xs. c = CHR ''0''" using digits_value_zero_iff [OF dxs] by simp
    then show ?thesis using step True by (simp add: strip_leading_zeros_all_zero)
  next
    case False
    then have nz: "\<not> (\<forall>c\<in>set xs. c = CHR ''0'')" using digits_value_zero_iff [OF dxs] by simp
    then have "xs \<noteq> []" by auto
    then have "digits_toString (digits_value 10 xs) = strip_leading_zeros xs"
      using snoc.IH dxs by simp
    then show ?thesis using step False strip_leading_zeros_nonzero(2) [OF nz] by simp
  qed
qed

lemma all_zero_replicate: "\<forall>c\<in>set g. c = z \<Longrightarrow> g = replicate (length g) z"
  by (induction g) auto

lemma padStart_digits:
  assumes "list_all is_digit g" "g \<noteq> []"
  shows "padStart (digits_toString (digits_value 10 g)) (length g) CHR ''0'' = g"
proof (cases "\<forall>c\<in>set g. c = CHR ''0''")
  case True
  then have g: "g = replicate (length g) CHR ''0''" by (rule all_zero_replicate)
  have "strip_leading_zeros g = ''0''"
    using True by (simp add: strip_leading_zeros_def dropWhile_eq_Nil_conv [THEN iffD2])
  then have "padStart (digits_toString (digits_value 10 g)) (length g) CHR ''0'' =
      replicate (length g - 1) CHR ''0'' @ ''0''"
    using assms by (simp add: digits_toString_digits_value padStart_def)
  also have "\<dots> = replicate (Suc (length g - 1)) CHR ''0''"
    by (simp add: replicate_append_same)
  also have "Suc (length g - 1) = length g" using assms(2) by (cases g) simp_all
  finally show ?thesis using g by simp
next
  case False
  let ?P = "\<lambda>c. c = CHR ''0''"
  have s: "strip_leading_zeros g = dropWhile ?P g" by (rule strip_leading_zeros_nonzero(1) [OF False])
  have "length (takeWhile ?P g) + length (dropWhile ?P g) = length g"
    by (metis length_append takeWhile_dropWhile_id)
  then have l: "length g - length (dropWhile ?P g) = length (takeWhile ?P g)"
    by linarith
  have t: "takeWhile ?P g = replicate (length (takeWhile ?P g)) CHR ''0''"
    by (rule all_zero_replicate) (auto dest: set_takeWhileD)
  have "padStart (digits_toString (digits_value 10 g)) (length g) CHR ''0'' =
      replicate (length (takeWhile ?P g)) CHR ''0'' @ dropWhile ?P g"
    using assms by (simp add: digits_toString_digits_value padStart_def s l)
  also have "\<dots> = takeWhile ?P g @ dropWhile ?P g" using t by simp
  finally show ?thesis by simp
qed

lemma dropWhile_replicate:
  "dropWhile (\<lambda>c. c = z) (replicate k z @ xs) = dropWhile (\<lambda>c. c = z) xs"
  by (induction k) simp_all

lemma strip_trailing_zeros_padded:
  "strip_trailing_zeros (f @ replicate k CHR ''0'') = strip_trailing_zeros f"
  by (simp add: strip_trailing_zeros_def dropWhile_replicate)

lemma strip_trailing_zeros_Nil_iff:
  "strip_trailing_zeros f = [] \<longleftrightarrow> (\<forall>c\<in>set f. c = CHR ''0'')"
  by (simp add: strip_trailing_zeros_def dropWhile_eq_Nil_conv)


subsection \<open>Parsing\<close>

lemma trim_id:
  assumes "xs \<noteq> []" "\<not> is_whitespace (hd xs)" "\<not> is_whitespace (last xs)"
  shows "trim xs = xs"
proof -
  have a: "dropWhile is_whitespace xs = xs" using assms by (simp add: dropWhile_eq_self_iff)
  have "dropWhile is_whitespace (rev xs) = rev xs"
    using assms by (simp add: dropWhile_eq_self_iff hd_rev)
  then show ?thesis by (simp add: trim_def a)
qed

lemma trim_Nil: "trim [] = []"
  by (simp add: trim_def)

lemma trim_digits: "list_all is_digit w \<Longrightarrow> trim w = w"
proof (cases "w = []")
  case True
  then show ?thesis by (simp add: trim_Nil)
next
  case False
  assume "list_all is_digit w"
  then have "is_digit (hd w)" "is_digit (last w)" using False by (simp_all add: list_all_iff)
  then show ?thesis using False digit_not_special by (simp add: trim_id)
qed

lemma parse_digits: "list_all is_digit w \<Longrightarrow> parse_integer_literal w = Inr (digits_value 10 w)"
proof (cases w)
  case Nil
  then show ?thesis by (simp add: digits_value_Nil)
next
  case (Cons c cs)
  assume d: "list_all is_digit w"
  have c: "c \<noteq> CHR ''-''" "c \<noteq> CHR ''+''" using d Cons digit_not_special [of c] by simp_all
  have h: "cs \<noteq> [] \<Longrightarrow> hd cs \<notin> {CHR ''x'', CHR ''X'', CHR ''o'', CHR ''O'', CHR ''b'', CHR ''B''}"
    using d Cons digit_not_special [of "hd cs"] by (cases cs) auto
  have a: "all_digits_of 10 (c # cs)" using d Cons all_digits_of_10 [of w] by simp
  show ?thesis unfolding Cons using c h a by auto
qed

lemma BigInt_of_digits: "list_all is_digit w \<Longrightarrow> BigInt_of_string w = Inr (digits_value 10 w)"
  by (simp add: BigInt_of_string_def trim_digits parse_digits)

lemma BigInt_of_signed_digits:
  assumes "list_all is_digit w" "w \<noteq> []"
  shows "BigInt_of_string (CHR ''-'' # w) = Inr (- digits_value 10 w)"
    and "BigInt_of_string (CHR ''+'' # w) = Inr (digits_value 10 w)"
proof -
  have l: "is_digit (last w)" using assms by (simp add: list_all_iff)
  have w1: "\<not> is_whitespace CHR ''-''" "\<not> is_whitespace CHR ''+''"
    by (simp_all add: is_whitespace_def char_code_def)
  have t1: "trim (CHR ''-'' # w) = CHR ''-'' # w" "trim (CHR ''+'' # w) = CHR ''+'' # w"
    using assms(2) l digit_not_special [of "last w"] w1 by (simp_all add: trim_id)
  have a: "all_digits_of 10 w" using assms by (rule all_digits_of_10)
  show "BigInt_of_string (CHR ''-'' # w) = Inr (- digits_value 10 w)"
    by (simp add: BigInt_of_string_def t1 a)
  show "BigInt_of_string (CHR ''+'' # w) = Inr (digits_value 10 w)"
    by (simp add: BigInt_of_string_def t1 a)
qed

subsection \<open>Splitting at the dot\<close>

lemma split_dot_nodot: "CHR ''.'' \<notin> set s \<Longrightarrow> split_dot s = [s]"
  by (induction s) auto

lemma split_dot_append:
  "CHR ''.'' \<notin> set a \<Longrightarrow> split_dot (a @ CHR ''.'' # b) = a # split_dot b"
  by (induction a) auto

lemma split_dot_parts:
  assumes "CHR ''.'' \<notin> set (fraction_part s)"
  shows "hd (split_dot s) = integer_part s"
    and "(case tl (split_dot s) of [] \<Rightarrow> [] | f # _ \<Rightarrow> f) = fraction_part s"
proof -
  let ?P = "\<lambda>c. c \<noteq> CHR ''.''"
  have i: "CHR ''.'' \<notin> set (takeWhile ?P s)" by (auto dest: set_takeWhileD)
  have both: "hd (split_dot s) = integer_part s \<and>
      (case tl (split_dot s) of [] \<Rightarrow> [] | f # _ \<Rightarrow> f) = fraction_part s"
  proof (cases "dropWhile ?P s")
    case Nil
    then have all: "\<forall>x\<in>set s. ?P x" by (simp add: dropWhile_eq_Nil_conv)
    then have "CHR ''.'' \<notin> set s" by blast
    then have sp: "split_dot s = [s]" by (rule split_dot_nodot)
    have tk: "takeWhile ?P s = s" using all by (simp add: takeWhile_eq_all_conv)
    show ?thesis unfolding integer_part_def fraction_part_def Nil tk sp by simp
  next
    case (Cons c r)
    then have "c = CHR ''.''" using hd_dropWhile [of ?P s] by auto
    then have s: "s = takeWhile ?P s @ CHR ''.'' # r"
      using takeWhile_dropWhile_id [of ?P s] Cons by simp
    have r: "fraction_part s = r" using Cons by (simp add: fraction_part_def)
    then have "split_dot r = [r]" using assms by (simp add: split_dot_nodot)
    then have "split_dot s = [takeWhile ?P s, r]"
      using split_dot_append [OF i, of r] s by simp
    then show ?thesis using r by (simp add: integer_part_def)
  qed
  then show "hd (split_dot s) = integer_part s"
    and "(case tl (split_dot s) of [] \<Rightarrow> [] | f # _ \<Rightarrow> f) = fraction_part s" by simp_all
qed

lemma parseUnits_parts:
  "CHR ''.'' \<notin> set (fraction_part s) \<Longrightarrow>
   parseUnits s d = BigInt_of_string (integer_part s @ take d (padEnd (fraction_part s) d CHR ''0''))"
  by (simp add: parseUnits_def Let_def split_dot_parts)

lemma parts_of_dotted:
  assumes "CHR ''.'' \<notin> set a"
  shows "integer_part (a @ CHR ''.'' # b) = a" and "fraction_part (a @ CHR ''.'' # b) = b"
  using assms by (induction a) (auto simp: integer_part_def fraction_part_def)

lemma parts_of_undotted:
  assumes "CHR ''.'' \<notin> set a"
  shows "integer_part a = a" and "fraction_part a = []"
  using assms by (induction a) (auto simp: integer_part_def fraction_part_def)

subsection \<open>The divisor of formatUnits\<close>

text \<open>
  Up to \<open>10^22\<close> the powers of ten are binary64 values, so \<open>BigInt(10 ** decimals)\<close> is
  the power itself; from \<open>10^23\<close> on it is not.
\<close>

lemma number_pow10_exact: "d \<le> 22 \<Longrightarrow> number_pow10 d = Some (10 ^ d)"
proof -
  assume "d \<le> 22"
  then have "d \<in> {0, 1, 2, 3, 4, 5, 6, 7, 8, 9, 10, 11, 12, 13, 14, 15, 16, 17, 18, 19, 20, 21, 22}"
    by (simp only: insert_iff empty_iff) presburger
  then show ?thesis
    by (elim insertE emptyE) (simp; code_simp)+
qed

lemma bigint_div_rem_nonneg:
  "0 \<le> a \<Longrightarrow> 0 < b \<Longrightarrow> bigint_div a b = a div b \<and> bigint_rem a b = a mod b"
  by (cases "a = 0") (simp_all add: bigint_div_def bigint_rem_def)

lemma bigint_toString_nonneg: "0 \<le> v \<Longrightarrow> bigint_toString v = digits_toString v"
  by (simp add: bigint_toString_def)

lemma formatUnits_of_parts:
  assumes d: "d \<le> 22" and i: "list_all is_digit i" "i \<noteq> []"
    and g: "list_all is_digit g" "length g = d"
  shows "formatUnits (digits_value 10 (i @ g)) d =
     Inr (if strip_trailing_zeros g = [] then strip_leading_zeros i
          else strip_leading_zeros i @ ''.'' @ strip_trailing_zeros g)"
proof -
  let ?N = "digits_value 10 i" and ?F = "digits_value 10 g"
  have v: "digits_value 10 (i @ g) = ?N * 10 ^ d + ?F"
    using g(2) by (simp add: digits_value_append)
  have N: "0 \<le> ?N" and F: "0 \<le> ?F" "?F < 10 ^ d"
    using digits_value_nonneg [of 10 i] digits_value_nonneg [of 10 g] digits_value_bound [OF g(1)] g(2)
    by simp_all
  have vnn: "0 \<le> ?N * 10 ^ d + ?F" using N F by simp
  have q: "(?N * 10 ^ d + ?F) div 10 ^ d = ?N" using F by simp
  have r: "(?N * 10 ^ d + ?F) mod 10 ^ d = ?F" using F by simp
  have dr: "bigint_div (?N * 10 ^ d + ?F) (10 ^ d) = ?N" "bigint_rem (?N * 10 ^ d + ?F) (10 ^ d) = ?F"
    using bigint_div_rem_nonneg [OF vnn, of "10 ^ d"] q r by simp_all
  have sN: "bigint_toString ?N = strip_leading_zeros i"
    using N i by (simp add: bigint_toString_nonneg digits_toString_digits_value)
  let ?r = "strip_trailing_zeros (padStart (bigint_toString ?F) d CHR ''0'')"
  have fu: "formatUnits (digits_value 10 (i @ g)) d =
      (if ?F = 0 then Inr (strip_leading_zeros i)
       else if ?r \<noteq> [] then Inr (strip_leading_zeros i @ ''.'' @ ?r)
       else Inr (strip_leading_zeros i))"
    by (simp add: formatUnits_def number_pow10_exact [OF d] BigInt_of_number_def v dr sN Let_def)
  show ?thesis
  proof (cases "?F = 0")
    case True
    then have "strip_trailing_zeros g = []"
      using digits_value_zero_iff [OF g(1)] by (simp add: strip_trailing_zeros_Nil_iff)
    then show ?thesis using True fu by simp
  next
    case False
    then have nz: "strip_trailing_zeros g \<noteq> []"
      using digits_value_zero_iff [OF g(1)] by (simp add: strip_trailing_zeros_Nil_iff)
    have "g \<noteq> []" using False by (auto simp: digits_value_Nil)
    then have "padStart (bigint_toString ?F) d CHR ''0'' = g"
      using padStart_digits [OF g(1)] F(1) g(2) by (simp add: bigint_toString_nonneg)
    then show ?thesis using False nz fu by simp
  qed
qed

lemma digits_value_padded:
  "digits_value 10 (f @ replicate k CHR ''0'') = digits_value 10 f * 10 ^ k"
proof -
  have "list_all is_digit (replicate k CHR ''0'')"
    by (auto simp: list_all_iff is_digit_code char_code_def)
  then have "digits_value 10 (replicate k CHR ''0'') = 0"
    using digits_value_zero_iff [of "replicate k CHR ''0''"] by auto
  then show ?thesis by (simp add: digits_value_append)
qed

text \<open>
  Claim C2, as stated, fails in three ways. With 24 decimals the divisor is the binary64
  value nearest to \<open>10^24\<close>, which is \<open>10^24 - 2^24\<close>, and the round trip of \<open>1\<close> is not
  \<open>1\<close>. A negative value with a fraction is printed with a second minus sign. Leading
  zeros of the integer part are not kept.
\<close>

theorem roundtrip_counterexample:
  "roundtrip ''1'' 24 = Inr ''1.000000000000000016777216'' \<and> trim_fraction ''1'' = ''1'' \<and>
   roundtrip ''-1.5'' 1 = Inr ''-1.-5'' \<and> trim_fraction ''-1.5'' = ''-1.5'' \<and>
   roundtrip ''007'' 0 = Inr ''7'' \<and> trim_fraction ''007'' = ''007''"
  by code_simp

text \<open>
  Claim C2, amended. For at most 22 decimals and an unsigned decimal string \<open>s\<close> with at
  most \<open>d\<close> fractional digits, \<open>formatUnits(parseUnits(s, d), d)\<close> is \<open>s\<close> with the
  redundant leading zeros of its integer part removed and the trailing zeros of its
  fraction trimmed (no dot when nothing remains); for a string without redundant leading
  zeros it is \<open>s\<close> after trimming the fraction alone. \<open>parseUnits\<close> gives the exact integer
  value of \<open>s\<close> scaled by \<open>10^d\<close>.
\<close>

theorem roundtrip_unsigned_decimal:
  assumes "d \<le> 22" and "unsigned_decimal d s"
  shows "roundtrip s d = Inr (normalize_decimal s) \<and>
         (strip_leading_zeros (integer_part s) = integer_part s \<longrightarrow>
            roundtrip s d = Inr (trim_fraction s)) \<and>
         parseUnits s d =
           Inr (digits_value 10 (integer_part s) * 10 ^ d +
                digits_value 10 (fraction_part s) * 10 ^ (d - length (fraction_part s)))"
proof -
  let ?i = "integer_part s" and ?f = "fraction_part s"
  let ?g = "?f @ replicate (d - length ?f) CHR ''0''"
  have i: "list_all is_digit ?i" "?i \<noteq> []" and f: "list_all is_digit ?f" "length ?f \<le> d"
    using assms(2) by (simp_all add: unsigned_decimal_def)
  have g: "list_all is_digit ?g" "length ?g = d"
    using f by (auto simp: list_all_iff is_digit_code char_code_def)
  have tk: "take d (padEnd ?f d CHR ''0'') = ?g" using f(2) by (simp add: padEnd_def)
  have dig: "list_all is_digit (?i @ ?g)" using i g by simp
  have "parseUnits s d = BigInt_of_string (?i @ ?g)"
    using parseUnits_parts [OF digits_no_dot [OF f(1)], of d] tk by simp
  then have p: "parseUnits s d = Inr (digits_value 10 (?i @ ?g))"
    using BigInt_of_digits [OF dig] by simp
  have "formatUnits (digits_value 10 (?i @ ?g)) d =
     Inr (if strip_trailing_zeros ?g = [] then strip_leading_zeros ?i
          else strip_leading_zeros ?i @ ''.'' @ strip_trailing_zeros ?g)"
    by (rule formatUnits_of_parts [OF assms(1) i g])
  then have rt: "roundtrip s d = Inr (normalize_decimal s)"
    by (simp add: roundtrip_def p normalize_decimal_def Let_def strip_trailing_zeros_padded)
  have ex: "digits_value 10 (?i @ ?g) =
      digits_value 10 ?i * 10 ^ d + digits_value 10 ?f * 10 ^ (d - length ?f)"
    using g(2) digits_value_append [of 10 ?i ?g] by (simp add: digits_value_padded)
  show ?thesis
    using rt p ex by (simp add: normalize_decimal_def trim_fraction_def Let_def)
qed

theorem roundtrip_unsigned_decimal_witness:
  "roundtrip ''007.50'' 9 = Inr ''7.5'' \<and> roundtrip ''12'' 0 = Inr ''12'' \<and>
   roundtrip ''1.000000000000000000001'' 22 = Inr ''1.000000000000000000001''"
proof -
  have u: "unsigned_decimal 9 ''007.50''" "unsigned_decimal 0 ''12''"
    "unsigned_decimal 22 ''1.000000000000000000001''"
    by code_simp+
  have n: "normalize_decimal ''007.50'' = ''7.5''" "normalize_decimal ''12'' = ''12''"
    "normalize_decimal ''1.000000000000000000001'' = ''1.000000000000000000001''"
    by code_simp+
  show ?thesis
    using roundtrip_unsigned_decimal [OF _ u(1)] roundtrip_unsigned_decimal [OF _ u(2)]
      roundtrip_unsigned_decimal [OF _ u(3)]
    by (simp add: n del: One_nat_def)
qed

subsection \<open>Truncation\<close>

lemma parseUnits_signed:
  assumes sg: "sg \<in> {[], ''-'', ''+''}" and n: "n \<noteq> []" "list_all is_digit n"
    and f: "list_all is_digit f"
  shows "parseUnits (sg @ n @ ''.'' @ f) d =
     Inr ((if sg = ''-'' then - 1 else 1) *
          digits_value 10 (n @ take d f @ replicate (d - length f) CHR ''0''))"
proof -
  let ?w = "n @ take d f @ replicate (d - length f) CHR ''0''"
  have nd: "CHR ''.'' \<notin> set (sg @ n)" using sg digits_no_dot [OF n(2)] by auto
  have parts: "integer_part (sg @ n @ ''.'' @ f) = sg @ n" "fraction_part (sg @ n @ ''.'' @ f) = f"
    using parts_of_dotted [OF nd, of f] by simp_all
  have "CHR ''.'' \<notin> set (fraction_part (sg @ n @ ''.'' @ f))"
    using digits_no_dot [OF f] parts by simp
  then have p: "parseUnits (sg @ n @ ''.'' @ f) d = BigInt_of_string (sg @ ?w)"
    using parseUnits_parts [of "sg @ n @ ''.'' @ f" d] parts by (simp add: padEnd_def)
  have w: "list_all is_digit ?w" "?w \<noteq> []"
    using n f by (auto simp: list_all_iff is_digit_code char_code_def dest: in_set_takeD)
  show ?thesis
    using sg p BigInt_of_digits [OF w(1)] BigInt_of_signed_digits [OF w]
    by auto
qed

text \<open>
  Claim C10. For a decimal string (optional sign, digits, a dot, digits) with more than
  \<open>d\<close> fractional digits, \<open>parseUnits\<close> returns the integer read from the integer digits
  followed by the first \<open>d\<close> fractional digits, without rounding and without an error; two
  such strings that agree on the first \<open>d\<close> fractional digits give the same integer.
\<close>

theorem parseUnits_truncates:
  assumes "sg \<in> {[], ''-'', ''+''}" and "n \<noteq> []" "list_all is_digit n"
    and "list_all is_digit f" and "d < length f"
  shows "parseUnits (sg @ n @ ''.'' @ f) d =
           Inr ((if sg = ''-'' then - 1 else 1) * digits_value 10 (n @ take d f)) \<and>
         (\<forall>f'. list_all is_digit f' \<and> take d f' = take d f \<longrightarrow>
            parseUnits (sg @ n @ ''.'' @ f') d = parseUnits (sg @ n @ ''.'' @ f) d)"
proof (intro conjI allI impI)
  show a: "parseUnits (sg @ n @ ''.'' @ f) d =
           Inr ((if sg = ''-'' then - 1 else 1) * digits_value 10 (n @ take d f))"
    using parseUnits_signed [OF assms(1-4), of d] assms(5) by simp
  fix f' assume h: "list_all is_digit f' \<and> take d f' = take d f"
  then have "length (take d f') = d" using assms(5) by simp
  then have "d \<le> length f'" by simp
  then show "parseUnits (sg @ n @ ''.'' @ f') d = parseUnits (sg @ n @ ''.'' @ f) d"
    using parseUnits_signed [OF assms(1-3), of f' d] h a by simp
qed

theorem parseUnits_truncates_witness:
  "parseUnits ''1.23456'' 2 = Inr 123 \<and> parseUnits ''1.23999'' 2 = parseUnits ''1.23456'' 2 \<and>
   parseUnits ''-0.129'' 2 = Inr (- 12)"
proof -
  have v: "digits_value 10 ''123'' = 123" "digits_value 10 ''012'' = 12"
    by (simp_all add: digits_value_def digit_value_def in_range_def char_code_def)
  have h1: "parseUnits ([] @ ''1'' @ ''.'' @ ''23456'') 2 =
              Inr ((if [] = ''-'' then - 1 else 1) * digits_value 10 (''1'' @ take 2 ''23456'')) \<and>
            (\<forall>f'. list_all is_digit f' \<and> take 2 f' = take 2 ''23456'' \<longrightarrow>
               parseUnits ([] @ ''1'' @ ''.'' @ f') 2 = parseUnits ([] @ ''1'' @ ''.'' @ ''23456'') 2)"
    by (rule parseUnits_truncates) (simp_all add: is_digit_code char_code_def)
  have h2: "parseUnits (''-'' @ ''0'' @ ''.'' @ ''129'') 2 =
              Inr ((if ''-'' = ''-'' then - 1 else 1) * digits_value 10 (''0'' @ take 2 ''129'')) \<and>
            (\<forall>f'. list_all is_digit f' \<and> take 2 f' = take 2 ''129'' \<longrightarrow>
               parseUnits (''-'' @ ''0'' @ ''.'' @ f') 2 = parseUnits (''-'' @ ''0'' @ ''.'' @ ''129'') 2)"
    by (rule parseUnits_truncates) (simp_all add: is_digit_code char_code_def)
  have a: "parseUnits ''1.23456'' 2 = Inr 123" using h1 by (simp add: v)
  have b: "parseUnits ''1.23999'' 2 = parseUnits ''1.23456'' 2"
    using h1 [THEN conjunct2, rule_format, of "''23999''"]
    by (simp add: is_digit_code char_code_def)
  have c: "parseUnits ''-0.129'' 2 = Inr (- 12)" using h2 by (simp add: v)
  show ?thesis using a b c by simp
qed

end
